theory Spec2Isabelle
  imports Main "HOL-Library.Char_ord" "HOL-Library.List_Lexorder"
begin

section \<open>Warehouse inventory tracker: transaction lifecycle and count reconciliation\<close>

text \<open>
  The development embeds the hook \<open>useTransactions\<close> (status policy, reference numbers,
  transfer mirror, advance, detail update), the hook \<open>useInventoryCount\<close> (latest
  snapshot per item, variances, adjustment) and the query of \<open>WarehouseReport\<close>.
  Strings are the source's strings: transaction types, statuses, dates and identifiers
  are all \<open>string\<close>, compared with \<open>=\<close> where the source uses \<open>===\<close>. Where the store
  orders a text column, the order is the lexicographic one on characters.
  Toast messages, console output and the \<open>loading\<close>/\<open>error\<close> flags are presentation and
  are not part of the model; every request to the store is part of it.
\<close>

subsection \<open>Strings and numbers of the host language\<close>

text \<open>
  A number is an integer or \<open>NaN\<close>. Quantities and reference suffixes are integers in
  every path modelled here, so fractions and the rounding of doubles above \<open>2^53\<close>
  are left out; \<open>NaN\<close> is kept, since \<open>parseInt\<close> produces it.
\<close>

datatype number = Num int | NaN

fun digits :: "nat \<Rightarrow> string" where
  "digits n =
     (if n < 10 then [''0123456789'' ! n]
      else digits (n div 10) @ [''0123456789'' ! (n mod 10)])"

text \<open>\<open>String(x)\<close> for a number.\<close>

fun String :: "number \<Rightarrow> string" where
  "String NaN = ''NaN''"
| "String (Num i) = (if i < 0 then CHR ''-'' # digits (nat (- i)) else digits (nat i))"

text \<open>\<open>x + k\<close> for a number \<open>x\<close> and an integer \<open>k\<close>: \<open>NaN\<close> absorbs.\<close>

fun plus_number :: "number \<Rightarrow> int \<Rightarrow> number" where
  "plus_number NaN k = NaN"
| "plus_number (Num i) k = Num (i + k)"

text \<open>\<open>s.padStart(n, c)\<close>: pads on the left up to length \<open>n\<close> and never truncates.\<close>

definition padStart :: "nat \<Rightarrow> char \<Rightarrow> string \<Rightarrow> string" where
  "padStart n c s = replicate (n - length s) c @ s"

text \<open>\<open>s.split(sep)\<close> for a separator of one character; the result is never empty.\<close>

fun split_on :: "char \<Rightarrow> string \<Rightarrow> string list" where
  "split_on sep [] = [[]]"
| "split_on sep (c # cs) =
     (if c = sep then [] # split_on sep cs
      else (case split_on sep cs of
              [] \<Rightarrow> [[c]]
            | p # ps \<Rightarrow> (c # p) # ps))"

text \<open>
  \<open>parseInt(s)\<close> without a radix: leading white space is skipped, one sign is read,
  a prefix \<open>0x\<close> or \<open>0X\<close> selects radix 16, and the longest run of digits of the radix is
  the value; no digit at all gives \<open>NaN\<close>. White space is the ASCII white space.
\<close>

definition is_space :: "char \<Rightarrow> bool" where
  "is_space c = (c \<in> set [CHR '' '', CHR 0x09, CHR 0x0A, CHR 0x0B, CHR 0x0C, CHR 0x0D])"

definition digit_value :: "char \<Rightarrow> nat" where
  "digit_value c =
     (case map_of (zip ''0123456789abcdefABCDEF''
                       [0, 1, 2, 3, 4, 5, 6, 7, 8, 9, 10, 11, 12, 13, 14, 15,
                        10, 11, 12, 13, 14, 15]) c of
        None \<Rightarrow> 16
      | Some d \<Rightarrow> d)"

definition parseInt :: "string \<Rightarrow> number" where
  "parseInt s =
     (let t = dropWhile is_space s;
          negative = (take 1 t = ''-'');
          u = (if take 1 t = ''-'' \<or> take 1 t = ''+'' then drop 1 t else t);
          hex = (take 2 u = ''0x'' \<or> take 2 u = ''0X'');
          radix = (if hex then 16 else 10);
          v = (if hex then drop 2 u else u);
          ds = takeWhile (\<lambda>c. digit_value c < radix) v;
          magnitude = fold (\<lambda>c acc. acc * radix + digit_value c) ds 0
      in if ds = [] then NaN
         else Num (if negative then - int magnitude else int magnitude))"

text \<open>
  \<open>x || y\<close> on an optional string: \<open>undefined\<close>, \<open>null\<close> and the empty string are
  falsy. \<open>None\<close> stands for \<open>undefined\<close> and for \<open>null\<close>.
\<close>

definition truthy :: "string option \<Rightarrow> bool" where
  "truthy x = (case x of None \<Rightarrow> False | Some s \<Rightarrow> s \<noteq> [])"

definition or_null :: "string option \<Rightarrow> string option" where
  "or_null x = (if truthy x then x else None)"

subsection \<open>The ledger store\<close>

text \<open>
  The two tables, with the columns the hooks write. A nullable column is an option.
  Field names carry a prefix for the record they belong to, since the tables share
  column names.
\<close>

record header =
  h_transaction_id :: string
  h_transaction_type :: string
  h_transaction_date :: string
  h_warehouse :: "string option"
  h_reference_type :: string
  h_reference_number :: string
  h_shipment_carrier :: "string option"
  h_shipping_document :: "string option"
  h_customer_po :: "string option"
  h_customer_name :: "string option"
  h_comments :: "string option"
  h_related_transaction_id :: "string option"

record detail =
  d_detail_id :: string
  d_transaction_id :: string
  d_item_name :: string
  d_quantity :: int
  d_inventory_status :: string
  d_status :: string
  d_lot_number :: "string option"
  d_comments :: "string option"

text \<open>An error answer of the store; \<open>42501\<close> is the code of a denied permission.\<close>

datatype db_error = Db_error (code: string)

text \<open>A request names its kind and its table or view.\<close>

datatype request = Select string | Insert string | Update string

text \<open>
  The world outside the hooks: the two tables, the requests issued so far, the answers
  of the store (\<open>answers w k\<close> is the answer to the request number \<open>k\<close> of the session,
  \<open>None\<close> when the store accepts it), the source of \<open>crypto.randomUUID()\<close> with the
  number of identifiers drawn, and the clock read by \<open>new Date().getTime()\<close>. A refused
  request changes no table.
\<close>

record world =
  transaction_header :: "header list"
  transaction_detail :: "detail list"
  requests :: "request list"
  answers :: "nat \<Rightarrow> db_error option"
  entropy :: "nat \<Rightarrow> string"
  drawn :: nat
  clock :: nat

text \<open>The answer that the store will give to the coming request number \<open>n\<close>, from 0.\<close>

definition outcome :: "nat \<Rightarrow> world \<Rightarrow> db_error option" where
  "outcome n w = answers w (length (requests w) + n)"

definition send :: "request \<Rightarrow> world \<Rightarrow> db_error option \<times> world" where
  "send r w = (outcome 0 w, w\<lparr>requests := requests w @ [r]\<rparr>)"

definition randomUUID :: "world \<Rightarrow> string \<times> world" where
  "randomUUID w = (entropy w (drawn w), w\<lparr>drawn := Suc (drawn w)\<rparr>)"

text \<open>\<open>xs.map(x => ({ id: crypto.randomUUID(), ... }))\<close>: one identifier per element, in order.\<close>

fun map_with_uuid :: "('a \<Rightarrow> string \<Rightarrow> 'b) \<Rightarrow> 'a list \<Rightarrow> world \<Rightarrow> 'b list \<times> world" where
  "map_with_uuid mk [] w = ([], w)"
| "map_with_uuid mk (x # xs) w =
     (case randomUUID w of (u, w1) \<Rightarrow>
        (case map_with_uuid mk xs w1 of (ys, w2) \<Rightarrow> (mk x u # ys, w2)))"

text \<open>The \<open>n\<close> identifiers that come out of the source \<open>e\<close> from position \<open>k\<close> on.\<close>

definition uuids_from :: "(nat \<Rightarrow> string) \<Rightarrow> nat \<Rightarrow> nat \<Rightarrow> string list" where
  "uuids_from e k n = map e [k ..< k + n]"

definition insert_header :: "header \<Rightarrow> world \<Rightarrow> db_error option \<times> world" where
  "insert_header h w =
     (case send (Insert ''transaction_header'') w of
        (Some e, w1) \<Rightarrow> (Some e, w1)
      | (None, w1) \<Rightarrow> (None, w1\<lparr>transaction_header := transaction_header w1 @ [h]\<rparr>))"

definition insert_details :: "detail list \<Rightarrow> world \<Rightarrow> db_error option \<times> world" where
  "insert_details ds w =
     (case send (Insert ''transaction_detail'') w of
        (Some e, w1) \<Rightarrow> (Some e, w1)
      | (None, w1) \<Rightarrow> (None, w1\<lparr>transaction_detail := transaction_detail w1 @ ds\<rparr>))"

text \<open>
  \<open>fetchTransactions\<close> reads the headers with their details for display and swallows
  its own errors; what it leaves behind is the request.
\<close>

definition fetchTransactions :: "world \<Rightarrow> world" where
  "fetchTransactions w = snd (send (Select ''transaction_header'') w)"

subsection \<open>Status policy\<close>

text \<open>\<open>isStatusValidForType\<close>: a switch on the transaction type with a default branch.\<close>

definition isStatusValidForType :: "string \<Rightarrow> string \<Rightarrow> bool" where
  "isStatusValidForType status transactionType =
     (if transactionType = ''Inbound'' then status = ''Pending'' \<or> status = ''Received''
      else if transactionType = ''Outbound'' then status = ''Pending'' \<or> status = ''Shipped''
      else if transactionType = ''Adjustment'' then status = ''Pending'' \<or> status = ''Completed''
      else True)"

text \<open>\<open>getNextStatusForType\<close>: \<open>None\<close> is the source's \<open>null\<close>.\<close>

definition getNextStatusForType :: "string \<Rightarrow> string option" where
  "getNextStatusForType transactionType =
     (if transactionType = ''Inbound'' then Some ''Received''
      else if transactionType = ''Outbound'' then Some ''Shipped''
      else if transactionType = ''Adjustment'' then Some ''Completed''
      else None)"

text \<open>
  The table of the specification, written as data: one row per recognised header type,
  with its valid statuses and its terminal status. A type without a row is unrecognised.
\<close>

definition validity_table :: "(string \<times> string list \<times> string) list" where
  "validity_table =
     [(''Inbound'', [''Pending'', ''Received''], ''Received''),
      (''Outbound'', [''Pending'', ''Shipped''], ''Shipped''),
      (''Adjustment'', [''Pending'', ''Completed''], ''Completed'')]"

definition table_allows :: "string \<Rightarrow> string \<Rightarrow> bool" where
  "table_allows transactionType status =
     (case map_of validity_table transactionType of
        None \<Rightarrow> True
      | Some row \<Rightarrow> status \<in> set (fst row))"

definition table_terminal :: "string \<Rightarrow> string option" where
  "table_terminal transactionType = map_option snd (map_of validity_table transactionType)"

subsection \<open>The form of a new transaction\<close>

text \<open>
  \<open>TransactionFormData\<close>, as \<open>createTransaction\<close> reads it. A quantity that is not of
  type number (an empty form field) is \<open>None\<close>.
\<close>

record item =
  i_item_name :: string
  i_quantity :: "int option"
  i_lot_number :: "string option"
  i_comments :: "string option"

record form =
  f_type :: string
  f_status :: string
  f_date :: string
  f_warehouse :: "string option"
  f_referenceType :: string
  f_shipmentCarrier :: "string option"
  f_shippingDocument :: "string option"
  f_customerPO :: "string option"
  f_customerName :: "string option"
  f_comments :: "string option"
  f_relatedTransactionId :: "string option"
  f_items :: "item list"
  f_inventoryStatus :: string
  f_transferToWarehouse :: "string option"
  f_transferDate :: "string option"
  f_transferToInventoryStatus :: "string option"

subsection \<open>Reference numbers\<close>

definition prefix_for :: "string \<Rightarrow> string" where
  "prefix_for ty =
     (if ty = ''Inbound'' then ''IB-'' else if ty = ''Outbound'' then ''OB-'' else ''ADJ-'')"

text \<open>
  \<open>.ilike('reference_number', prefix + '%')\<close>: the pattern is one of the three prefixes
  followed by \<open>%\<close>, so it matches the values that start with the prefix, letters compared
  without case.
\<close>

definition lower :: "char \<Rightarrow> char" where
  "lower c =
     (case map_of (zip ''ABCDEFGHIJKLMNOPQRSTUVWXYZ'' ''abcdefghijklmnopqrstuvwxyz'') c of
        None \<Rightarrow> c
      | Some l \<Rightarrow> l)"

definition ilike_prefix :: "string \<Rightarrow> string \<Rightarrow> bool" where
  "ilike_prefix p v = (map lower (take (length p) v) = map lower p)"

text \<open>
  The query for the last reference: the matching reference numbers in descending order,
  at most one of them. The error of the query is not read, so a refused query gives
  \<open>null\<close> (\<open>None\<close>).
\<close>

definition select_lastRef :: "string \<Rightarrow> world \<Rightarrow> string list option \<times> world" where
  "select_lastRef p w =
     (case send (Select ''transaction_header'') w of
        (Some e, w1) \<Rightarrow> (None, w1)
      | (None, w1) \<Rightarrow>
          (Some (take 1 (rev (sort (filter (ilike_prefix p)
                   (map h_reference_number (transaction_header w1)))))), w1))"

definition next_sequence :: "string list option \<Rightarrow> string" where
  "next_sequence lastRef =
     (case lastRef of
        Some (r # rs) \<Rightarrow>
          (let lastNum = (case split_on CHR ''-'' r of
                            a # b # cs \<Rightarrow> parseInt b
                          | _ \<Rightarrow> NaN)
           in padStart 5 CHR ''0'' (String (plus_number lastNum 1)))
      | _ \<Rightarrow> ''00001'')"

subsection \<open>Creating a transaction\<close>

definition primary_header :: "form \<Rightarrow> string \<Rightarrow> string \<Rightarrow> header" where
  "primary_header data transaction_id referenceNumber =
     \<lparr>h_transaction_id = transaction_id,
      h_transaction_type = f_type data,
      h_transaction_date = f_date data,
      h_warehouse = or_null (f_warehouse data),
      h_reference_type = f_referenceType data,
      h_reference_number = referenceNumber,
      h_shipment_carrier = f_shipmentCarrier data,
      h_shipping_document = f_shippingDocument data,
      h_customer_po = f_customerPO data,
      h_customer_name = f_customerName data,
      h_comments = f_comments data,
      h_related_transaction_id = or_null (f_relatedTransactionId data)\<rparr>"

definition primary_detail :: "form \<Rightarrow> string \<Rightarrow> item \<Rightarrow> string \<Rightarrow> detail" where
  "primary_detail data transaction_id it detail_id =
     \<lparr>d_detail_id = detail_id,
      d_transaction_id = transaction_id,
      d_item_name = i_item_name it,
      d_quantity = (case i_quantity it of Some q \<Rightarrow> q | None \<Rightarrow> 0),
      d_inventory_status = f_inventoryStatus data,
      d_status = f_status data,
      d_lot_number = or_null (i_lot_number it),
      d_comments = or_null (i_comments it)\<rparr>"

definition inbound_header :: "form \<Rightarrow> string \<Rightarrow> string \<Rightarrow> string \<Rightarrow> string \<Rightarrow> header" where
  "inbound_header data inboundId transferDate inboundReference transaction_id =
     \<lparr>h_transaction_id = inboundId,
      h_transaction_type = ''Inbound'',
      h_transaction_date = transferDate,
      h_warehouse = f_transferToWarehouse data,
      h_reference_type = ''Transfer Order'',
      h_reference_number = inboundReference,
      h_shipment_carrier = f_shipmentCarrier data,
      h_shipping_document = f_shippingDocument data,
      h_customer_po = None,
      h_customer_name = None,
      h_comments = f_comments data,
      h_related_transaction_id = Some transaction_id\<rparr>"

definition inbound_detail :: "form \<Rightarrow> string \<Rightarrow> item \<Rightarrow> string \<Rightarrow> detail" where
  "inbound_detail data inboundId it detail_id =
     \<lparr>d_detail_id = detail_id,
      d_transaction_id = inboundId,
      d_item_name = i_item_name it,
      d_quantity = (case i_quantity it of Some q \<Rightarrow> q | None \<Rightarrow> 0),
      d_inventory_status =
        (case f_transferToInventoryStatus data of
           None \<Rightarrow> f_inventoryStatus data
         | Some s \<Rightarrow> if s = [] then f_inventoryStatus data else s),
      d_status = ''Pending'',
      d_lot_number = or_null (i_lot_number it),
      d_comments = or_null (i_comments it)\<rparr>"

text \<open>
  The block ``If Transfer, create inbound mirror transaction''. The default transfer
  date is \<open>addBusinessDays(new Date(data.date), 2).toISOString().split('T')[0]\<close>;
  \<open>addBusinessDays\<close> is imported from a module outside the sources, so the whole
  expression is the parameter \<open>defaultTransferDate\<close>, which is \<open>None\<close> where it throws
  (an invalid date). The result is \<open>False\<close> where the block throws.
\<close>

definition create_inbound_mirror ::
  "(string \<Rightarrow> string option) \<Rightarrow> form \<Rightarrow> string \<Rightarrow> string \<Rightarrow> world \<Rightarrow> bool \<times> world" where
  "create_inbound_mirror defaultTransferDate data transaction_id sequence w =
     (let inboundReference = ''IB-'' @ sequence in
      case randomUUID w of (inboundId, w1) \<Rightarrow>
      (case (if truthy (f_transferDate data) then f_transferDate data
             else defaultTransferDate (f_date data)) of
         None \<Rightarrow> (False, w1)
       | Some transferDate \<Rightarrow>
          (case insert_header
                  (inbound_header data inboundId transferDate inboundReference transaction_id) w1 of
             (Some e, w2) \<Rightarrow> (False, w2)
           | (None, w2) \<Rightarrow>
              (case map_with_uuid (inbound_detail data inboundId) (f_items data) w2 of
                 (inboundDetails, w3) \<Rightarrow>
                 (case insert_details inboundDetails w3 of
                    (Some e, w4) \<Rightarrow> (False, w4)
                  | (None, w4) \<Rightarrow> (True, w4))))))"

text \<open>
  \<open>createTransaction\<close>. The result is the inserted header, or \<open>None\<close> for \<open>null\<close>: every
  error path, returned or thrown and caught, ends in \<open>null\<close>.
\<close>

definition createTransaction ::
  "(string \<Rightarrow> string option) \<Rightarrow> form \<Rightarrow> world \<Rightarrow> header option \<times> world" where
  "createTransaction defaultTransferDate data w =
     (if \<not> isStatusValidForType (f_status data) (f_type data) then (None, w)
      else
        let prefix = prefix_for (f_type data) in
        case select_lastRef prefix w of (lastRef, w1) \<Rightarrow>
        let sequence = next_sequence lastRef;
            referenceNumber = prefix @ sequence in
        case randomUUID w1 of (transaction_id, w2) \<Rightarrow>
        let headerData = primary_header data transaction_id referenceNumber in
        (case insert_header headerData w2 of
           (Some e, w3) \<Rightarrow> (None, w3)
         | (None, w3) \<Rightarrow>
            (case map_with_uuid (primary_detail data transaction_id) (f_items data) w3 of
               (details, w4) \<Rightarrow>
               (case insert_details details w4 of
                  (Some e, w5) \<Rightarrow> (None, w5)
                | (None, w5) \<Rightarrow>
                   if f_referenceType data = ''Transfer Order'' \<and> truthy (f_transferToWarehouse data)
                   then (case create_inbound_mirror defaultTransferDate data transaction_id sequence w5 of
                           (False, w6) \<Rightarrow> (None, w6)
                         | (True, w6) \<Rightarrow> (Some headerData, fetchTransactions w6))
                   else (Some headerData, fetchTransactions w5)))))"

subsection \<open>Updating a detail line and advancing a transaction\<close>

text \<open>
  \<open>getTransactionType\<close>: \<open>.single()\<close> answers with an error unless exactly one row
  matches; on any error the type falls back to Adjustment.
\<close>

definition getTransactionType :: "string \<Rightarrow> world \<Rightarrow> string \<times> world" where
  "getTransactionType transactionId w =
     (case send (Select ''transaction_header'') w of
        (Some e, w1) \<Rightarrow> (''Adjustment'', w1)
      | (None, w1) \<Rightarrow>
          (case filter (\<lambda>h. h_transaction_id h = transactionId) (transaction_header w1) of
             [h] \<Rightarrow> (h_transaction_type h, w1)
           | _ \<Rightarrow> (''Adjustment'', w1)))"

definition update_detail :: "detail \<Rightarrow> world \<Rightarrow> db_error option \<times> world" where
  "update_detail new w =
     (case send (Update ''transaction_detail'') w of
        (Some e, w1) \<Rightarrow> (Some e, w1)
      | (None, w1) \<Rightarrow>
          (None, w1\<lparr>transaction_detail :=
             map (\<lambda>d. if d_detail_id d = d_detail_id new
                       then d\<lparr>d_quantity := d_quantity new,
                              d_inventory_status := d_inventory_status new,
                              d_status := d_status new,
                              d_lot_number := d_lot_number new,
                              d_comments := d_comments new\<rparr>
                       else d)
                 (transaction_detail w1)\<rparr>))"

definition updateTransactionDetail :: "string \<Rightarrow> detail \<Rightarrow> world \<Rightarrow> bool \<times> world" where
  "updateTransactionDetail transactionId new w =
     (case getTransactionType transactionId w of (transactionType, w1) \<Rightarrow>
        if \<not> isStatusValidForType (d_status new) transactionType then (False, w1)
        else (case update_detail new w1 of
                (Some e, w2) \<Rightarrow> (False, w2)
              | (None, w2) \<Rightarrow> (True, fetchTransactions w2)))"

text \<open>
  The bulk update of \<open>advanceTransactionToNextStep\<close>:
  \<open>.update({ status: nextStatus }).eq('transaction_id', id).eq('status', 'Pending')\<close>.
\<close>

definition update_pending :: "string \<Rightarrow> string \<Rightarrow> world \<Rightarrow> db_error option \<times> world" where
  "update_pending transactionId nextStatus w =
     (case send (Update ''transaction_detail'') w of
        (Some e, w1) \<Rightarrow> (Some e, w1)
      | (None, w1) \<Rightarrow>
          (None, w1\<lparr>transaction_detail :=
             map (\<lambda>d. if d_transaction_id d = transactionId \<and> d_status d = ''Pending''
                       then d\<lparr>d_status := nextStatus\<rparr> else d)
                 (transaction_detail w1)\<rparr>))"

definition advanceTransactionToNextStep :: "header \<Rightarrow> world \<Rightarrow> bool \<times> world" where
  "advanceTransactionToNextStep t w =
     (case getNextStatusForType (h_transaction_type t) of
        None \<Rightarrow> (False, w)
      | Some nextStatus \<Rightarrow>
          (case update_pending (h_transaction_id t) nextStatus w of
             (Some e, w1) \<Rightarrow> (False, w1)
           | (None, w1) \<Rightarrow> (True, fetchTransactions w1)))"

subsection \<open>The count session\<close>

text \<open>
  A row of the view \<open>transactions_inventory_snapshot_by_date\<close>, with the columns the
  count session reads and the fourth bucket the view carries. The view is computed by
  the store; its rows at the time of the query are a parameter.
\<close>

record snapshot_row =
  s_warehouse :: string
  s_item_name :: string
  s_transaction_date :: string
  s_on_hand_total :: int
  s_inbound_total :: int
  s_scheduled_outbound_total :: int
  s_future_inventory_total :: int

record count_data =
  c_itemName :: string
  c_quantity :: int
  c_notes :: string

record variance =
  v_itemName :: string
  v_physicalCount :: int
  v_calculatedCount :: int
  v_variance :: int

record count_session =
  selectedWarehouse :: string
  selectedDate :: string
  countData :: "count_data list"
  calculatedInventory :: "snapshot_row list"
  variances :: "variance list"

text \<open>
  The snapshot query: the rows of the warehouse dated at or before the selected date,
  most recent first. Rows of one date come in the reverse of the stable ascending order.
\<close>

definition select_snapshot :: "snapshot_row list \<Rightarrow> string \<Rightarrow> string \<Rightarrow> snapshot_row list" where
  "select_snapshot view wh cutoff =
     rev (sort_key s_transaction_date
            (filter (\<lambda>r. s_warehouse r = wh \<and> s_transaction_date r \<le> cutoff) view))"

text \<open>The reducer of \<open>latestSnapshots\<close>: a row is pushed unless its item is already there.\<close>

definition push_if_new :: "snapshot_row \<Rightarrow> snapshot_row list \<Rightarrow> snapshot_row list" where
  "push_if_new current acc =
     (if find (\<lambda>r. s_item_name r = s_item_name current) acc = None then acc @ [current] else acc)"

definition latestSnapshots :: "snapshot_row list \<Rightarrow> snapshot_row list" where
  "latestSnapshots snapshot = fold push_if_new snapshot []"

definition initialCountData :: "snapshot_row list \<Rightarrow> count_data list" where
  "initialCountData latest =
     map (\<lambda>r. \<lparr>c_itemName = s_item_name r, c_quantity = 0, c_notes = []\<rparr>)
         (filter (\<lambda>r. s_on_hand_total r \<noteq> 0 \<or> s_inbound_total r \<noteq> 0
                       \<or> s_scheduled_outbound_total r \<noteq> 0) latest)"

definition fetchInitialInventory ::
  "snapshot_row list \<Rightarrow> count_session \<Rightarrow> world \<Rightarrow> count_session \<times> world" where
  "fetchInitialInventory view st w =
     (if selectedWarehouse st = [] \<or> selectedDate st = [] then (st, w)
      else (case send (Select ''transactions_inventory_snapshot_by_date'') w of
              (Some e, w1) \<Rightarrow> (st, w1)
            | (None, w1) \<Rightarrow>
                (let latest = latestSnapshots
                                (select_snapshot view (selectedWarehouse st) (selectedDate st))
                 in (st\<lparr>countData := initialCountData latest,
                        calculatedInventory := latest\<rparr>, w1))))"

text \<open>
  \<open>calculateVariances\<close>: the variances are set before the query for pending
  transactions, whose answer is shown to the user and feeds nothing else.
\<close>

definition variance_of :: "snapshot_row list \<Rightarrow> count_data \<Rightarrow> variance" where
  "variance_of inventory c =
     (let on_hand = (case find (\<lambda>r. s_item_name r = c_itemName c) inventory of
                       None \<Rightarrow> 0
                     | Some r \<Rightarrow> s_on_hand_total r)
      in \<lparr>v_itemName = c_itemName c,
          v_physicalCount = c_quantity c,
          v_calculatedCount = on_hand,
          v_variance = c_quantity c - on_hand\<rparr>)"

definition calculateVariances :: "count_session \<Rightarrow> world \<Rightarrow> count_session \<times> world" where
  "calculateVariances st w =
     (if selectedWarehouse st = [] \<or> selectedDate st = [] \<or> countData st = [] then (st, w)
      else (st\<lparr>variances := map (variance_of (calculatedInventory st)) (countData st)\<rparr>,
            snd (send (Select ''transaction_header'') w)))"

text \<open>
  \<open>generateAdjustment\<close> returns \<open>undefined\<close> when its guard stops it, \<open>null\<close> when an
  insert is refused, and the identifier of the new header otherwise.
\<close>

datatype adjustment_result = Undefined | Null | AdjustmentId string

definition adjustment_header :: "count_session \<Rightarrow> string \<Rightarrow> nat \<Rightarrow> header" where
  "adjustment_header st adjustmentId time =
     \<lparr>h_transaction_id = adjustmentId,
      h_transaction_type = ''Adjustment'',
      h_transaction_date = selectedDate st,
      h_warehouse = Some (selectedWarehouse st),
      h_reference_type = ''Inventory Count'',
      h_reference_number = ''ADJ-COUNT-'' @ digits time,
      h_shipment_carrier = None,
      h_shipping_document = None,
      h_customer_po = None,
      h_customer_name = None,
      h_comments = Some (''Inventory count adjustment for '' @ selectedWarehouse st
                          @ '' as of '' @ selectedDate st),
      h_related_transaction_id = None\<rparr>"

definition adjustment_detail :: "string \<Rightarrow> variance \<Rightarrow> string \<Rightarrow> detail" where
  "adjustment_detail adjustmentId v detail_id =
     \<lparr>d_detail_id = detail_id,
      d_transaction_id = adjustmentId,
      d_item_name = v_itemName v,
      d_quantity = \<bar>v_variance v\<bar>,
      d_inventory_status = ''Stock'',
      d_status = ''Completed'',
      d_lot_number = None,
      d_comments = Some (if v_variance v > 0 then ''Count overage'' else ''Count shortage'')\<rparr>"

definition generateAdjustment :: "count_session \<Rightarrow> world \<Rightarrow> adjustment_result \<times> world" where
  "generateAdjustment st w =
     (if selectedWarehouse st = [] \<or> selectedDate st = [] \<or> variances st = [] then (Undefined, w)
      else
        case randomUUID w of (adjustmentId, w1) \<Rightarrow>
        (case insert_header (adjustment_header st adjustmentId (clock w1)) w1 of
           (Some e, w2) \<Rightarrow> (Null, w2)
         | (None, w2) \<Rightarrow>
            (case map_with_uuid (adjustment_detail adjustmentId)
                    (filter (\<lambda>v. v_variance v \<noteq> 0) (variances st)) w2 of
               (details, w3) \<Rightarrow>
               (case insert_details details w3 of
                  (Some e, w4) \<Rightarrow> (Null, w4)
                | (None, w4) \<Rightarrow> (AdjustmentId adjustmentId, w4)))))"

subsection \<open>The warehouse report\<close>

text \<open>
  A row of the view \<open>transactions_inventory_summary\<close>, with the columns that
  \<open>handleSelectWarehouse\<close> reads. The query keeps the rows of the warehouse that satisfy
  \<open>.or('on_hand_total.gt.0,inbound_total.gt.0,scheduled_outbound_total.gt.0,future_inventory_total.gt.0')\<close>,
  ordered by item; the handler then filters what it received. The result is the new
  \<open>inventory\<close>; a refused query leaves the old one.
\<close>

record summary_row =
  r_Item :: string
  r_Warehouse :: string
  r_on_hand_total :: int
  r_inbound_total :: int
  r_scheduled_outbound_total :: int
  r_future_inventory_total :: int

definition select_summary :: "summary_row list \<Rightarrow> string \<Rightarrow> summary_row list" where
  "select_summary view name =
     sort_key r_Item
       (filter (\<lambda>row. r_Warehouse row = name
                  \<and> (r_on_hand_total row > 0 \<or> r_inbound_total row > 0
                       \<or> r_scheduled_outbound_total row > 0 \<or> r_future_inventory_total row > 0))
          view)"

definition handleSelectWarehouse ::
  "summary_row list \<Rightarrow> string \<Rightarrow> summary_row list \<Rightarrow> world \<Rightarrow> summary_row list \<times> world" where
  "handleSelectWarehouse view name inventory w =
     (case send (Select ''transactions_inventory_summary'') w of
        (Some e, w1) \<Rightarrow> (inventory, w1)
      | (None, w1) \<Rightarrow>
          (filter (\<lambda>row. r_on_hand_total row \<noteq> 0 \<or> r_inbound_total row \<noteq> 0
                          \<or> r_scheduled_outbound_total row \<noteq> 0
                          \<or> r_future_inventory_total row \<noteq> 0)
             (select_summary view name), w1))"

subsection \<open>Example inputs\<close>

text \<open>A store with no rows that accepts every request.\<close>

definition empty_world :: world where
  "empty_world =
     \<lparr>transaction_header = [], transaction_detail = [], requests = [],
      answers = (\<lambda>k. None), entropy = (\<lambda>n. ''uuid-'' @ digits n), drawn = 0,
      clock = 1700000000000\<rparr>"

definition line :: "string \<Rightarrow> string \<Rightarrow> string \<Rightarrow> string \<Rightarrow> detail" where
  "line detail_id transaction_id item_name status =
     \<lparr>d_detail_id = detail_id, d_transaction_id = transaction_id, d_item_name = item_name,
      d_quantity = 4, d_inventory_status = ''Stock'', d_status = status,
      d_lot_number = None, d_comments = None\<rparr>"

definition plain_header :: "string \<Rightarrow> string \<Rightarrow> string \<Rightarrow> header" where
  "plain_header transaction_id transaction_type reference_number =
     \<lparr>h_transaction_id = transaction_id, h_transaction_type = transaction_type,
      h_transaction_date = ''2024-03-01'', h_warehouse = Some ''North'',
      h_reference_type = ''Sales Order'', h_reference_number = reference_number,
      h_shipment_carrier = None, h_shipping_document = None, h_customer_po = None,
      h_customer_name = None, h_comments = None, h_related_transaction_id = None\<rparr>"

text \<open>
  An Outbound transaction with one Pending and one Shipped line, beside a Pending line
  of another transaction.
\<close>

definition shipping_world :: world where
  "shipping_world =
     empty_world\<lparr>transaction_header :=
                    [plain_header ''t1'' ''Outbound'' ''OB-00001'',
                     plain_header ''t2'' ''Inbound'' ''IB-00001''],
                  transaction_detail :=
                    [line ''d1'' ''t1'' ''Widget'' ''Pending'',
                     line ''d2'' ''t1'' ''Gadget'' ''Shipped'',
                     line ''d3'' ''t2'' ''Widget'' ''Pending'']\<rparr>"

text \<open>
  A transfer of two items from North to South, recorded as an Outbound transaction that
  is already Shipped; the second quantity was left empty in the form.
\<close>

definition transfer_form :: form where
  "transfer_form =
     \<lparr>f_type = ''Outbound'', f_status = ''Shipped'', f_date = ''2024-03-01'',
      f_warehouse = Some ''North'', f_referenceType = ''Transfer Order'',
      f_shipmentCarrier = Some ''Carrier'', f_shippingDocument = None, f_customerPO = None,
      f_customerName = None, f_comments = Some ''move'', f_relatedTransactionId = None,
      f_items = [\<lparr>i_item_name = ''Widget'', i_quantity = Some 7, i_lot_number = Some ''L1'',
                   i_comments = None\<rparr>,
                 \<lparr>i_item_name = ''Gadget'', i_quantity = None, i_lot_number = Some [],
                   i_comments = Some ''fragile''\<rparr>],
      f_inventoryStatus = ''Stock'', f_transferToWarehouse = Some ''South'',
      f_transferDate = Some ''2024-03-05'', f_transferToInventoryStatus = Some ''Hold''\<rparr>"

text \<open>
  A count session at North with the variances of three items: a shortage of 5, no
  variance, an overage of 3.
\<close>

definition counted_session :: count_session where
  "counted_session =
     \<lparr>selectedWarehouse = ''North'', selectedDate = ''2024-03-31'',
      countData = [\<lparr>c_itemName = ''A'', c_quantity = 45, c_notes = []\<rparr>,
                   \<lparr>c_itemName = ''B'', c_quantity = 50, c_notes = []\<rparr>,
                   \<lparr>c_itemName = ''C'', c_quantity = 3, c_notes = []\<rparr>],
      calculatedInventory =
        [\<lparr>s_warehouse = ''North'', s_item_name = ''A'', s_transaction_date = ''2024-03-30'',
           s_on_hand_total = 50, s_inbound_total = 0, s_scheduled_outbound_total = 0,
           s_future_inventory_total = 50\<rparr>,
         \<lparr>s_warehouse = ''North'', s_item_name = ''B'', s_transaction_date = ''2024-03-12'',
           s_on_hand_total = 50, s_inbound_total = 0, s_scheduled_outbound_total = 0,
           s_future_inventory_total = 50\<rparr>],
      variances = [\<lparr>v_itemName = ''A'', v_physicalCount = 45, v_calculatedCount = 50,
                      v_variance = - 5\<rparr>,
                   \<lparr>v_itemName = ''B'', v_physicalCount = 50, v_calculatedCount = 50,
                      v_variance = 0\<rparr>,
                   \<lparr>v_itemName = ''C'', v_physicalCount = 3, v_calculatedCount = 0,
                      v_variance = 3\<rparr>]\<rparr>"

text \<open>A manual adjustment of one item, entered as Pending.\<close>

definition adjustment_form :: form where
  "adjustment_form =
     \<lparr>f_type = ''Adjustment'', f_status = ''Pending'', f_date = ''2024-04-02'',
      f_warehouse = Some ''North'', f_referenceType = ''Manual'',
      f_shipmentCarrier = None, f_shippingDocument = None, f_customerPO = None,
      f_customerName = None, f_comments = None, f_relatedTransactionId = None,
      f_items = [\<lparr>i_item_name = ''A'', i_quantity = Some 2, i_lot_number = None,
                   i_comments = None\<rparr>],
      f_inventoryStatus = ''Stock'', f_transferToWarehouse = None,
      f_transferDate = None, f_transferToInventoryStatus = None\<rparr>"

text \<open>
  The snapshot view with three rows of item A at North (two before the end of March,
  one after), one row of item B whose first three buckets are zero, and a row of
  another warehouse.
\<close>

definition snapshot :: "string \<Rightarrow> string \<Rightarrow> string \<Rightarrow> int \<Rightarrow> int \<Rightarrow> snapshot_row" where
  "snapshot wh item_name date on_hand future =
     \<lparr>s_warehouse = wh, s_item_name = item_name, s_transaction_date = date,
      s_on_hand_total = on_hand, s_inbound_total = 0, s_scheduled_outbound_total = 0,
      s_future_inventory_total = future\<rparr>"

definition march_view :: "snapshot_row list" where
  "march_view =
     [snapshot ''North'' ''A'' ''2024-03-01'' 10 10,
      snapshot ''South'' ''A'' ''2024-03-25'' 70 70,
      snapshot ''North'' ''A'' ''2024-03-20'' 30 30,
      snapshot ''North'' ''B'' ''2024-03-12'' 0 6,
      snapshot ''North'' ''A'' ''2024-04-05'' 99 99]"

definition north_session :: count_session where
  "north_session =
     \<lparr>selectedWarehouse = ''North'', selectedDate = ''2024-03-31'', countData = [],
      calculatedInventory = [], variances = []\<rparr>"

text \<open>
  The summary view with an item whose on-hand quantity at North is negative and an item
  in stock.
\<close>

definition summary_view :: "summary_row list" where
  "summary_view =
     [\<lparr>r_Item = ''A'', r_Warehouse = ''North'', r_on_hand_total = - 5, r_inbound_total = 0,
        r_scheduled_outbound_total = 0, r_future_inventory_total = - 5\<rparr>,
      \<lparr>r_Item = ''B'', r_Warehouse = ''North'', r_on_hand_total = 12, r_inbound_total = 0,
        r_scheduled_outbound_total = 0, r_future_inventory_total = 12\<rparr>]"

text \<open>The count session at North before any variance was calculated.\<close>

definition uncounted_session :: count_session where
  "uncounted_session = counted_session\<lparr>variances := []\<rparr>"

text \<open>
  The store of the Outbound transaction when it refuses the next request and accepts
  the ones after it.
\<close>

definition refusing_world :: world where
  "refusing_world =
     shipping_world\<lparr>answers := (\<lambda>k. if k = 0 then Some (Db_error ''503'') else None)\<rparr>"

section \<open>Properties\<close>

subsection \<open>Store primitives\<close>

lemma outcome_simps:
  "outcome 0 w = answers w (length (requests w))"
  "outcome 1 w = answers w (Suc (length (requests w)))"
  "outcome (Suc 0) w = answers w (Suc (length (requests w)))"
  "outcome 2 w = answers w (Suc (Suc (length (requests w))))"
  "outcome 3 w = answers w (Suc (Suc (Suc (length (requests w)))))"
  "outcome 4 w = answers w (Suc (Suc (Suc (Suc (length (requests w))))))"
  by (simp_all add: outcome_def eval_nat_numeral)

lemmas store_defs =
  send_def randomUUID_def insert_header_def insert_details_def fetchTransactions_def
  select_lastRef_def getTransactionType_def update_detail_def update_pending_def

lemma length_uuids_from [simp]: "length (uuids_from e k n) = n"
  by (simp add: uuids_from_def)

lemma uuids_from_Suc: "uuids_from e k (Suc n) = e k # uuids_from e (Suc k) n"
proof -
  have "[k ..< Suc (k + n)] = k # [Suc k ..< Suc (k + n)]"
    by (rule upt_conv_Cons) simp
  then show ?thesis
    by (simp add: uuids_from_def)
qed

lemma map_with_uuid_eq:
  "map_with_uuid mk xs w =
     (map2 mk xs (uuids_from (entropy w) (drawn w) (length xs)),
      w\<lparr>drawn := drawn w + length xs\<rparr>)"
proof (induction xs arbitrary: w)
  case Nil
  show ?case by (simp add: uuids_from_def)
next
  case (Cons x xs)
  show ?case
    by (simp add: Cons.IH randomUUID_def uuids_from_Suc)
qed

lemma map2_first:
  assumes "\<And>x u. f (mk x u) = g x" and "length us = length xs"
  shows "map f (map2 mk xs us) = map g xs"
proof -
  have "map f (map2 mk xs us) = map (g \<circ> fst) (zip xs us)"
    by (simp add: assms(1) case_prod_unfold comp_def)
  also have "\<dots> = map g (map fst (zip xs us))"
    by simp
  finally show ?thesis
    by (simp add: assms(2))
qed

lemma map_with_uuid_map:
  assumes "\<And>x u. f (mk x u) = g x"
  shows "map f (fst (map_with_uuid mk xs w)) = map g xs"
  unfolding map_with_uuid_eq fst_conv
  by (rule map2_first) (simp_all add: assms)

lemma replicate_numeral: "replicate (numeral k) x = x # replicate (pred_numeral k) x"
  by (simp add: numeral_eq_Suc)

lemmas create_defs =
  createTransaction_def create_inbound_mirror_def store_defs outcome_def
  next_sequence_def prefix_for_def ilike_prefix_def lower_def parseInt_def digit_value_def
  is_space_def padStart_def primary_header_def primary_detail_def inbound_header_def
  inbound_detail_def isStatusValidForType_def truthy_def or_null_def Let_def replicate_numeral

lemmas count_defs =
  generateAdjustment_def adjustment_header_def adjustment_detail_def calculateVariances_def
  variance_of_def fetchInitialInventory_def select_snapshot_def latestSnapshots_def
  push_if_new_def initialCountData_def

lemmas example_defs = empty_world_def shipping_world_def line_def plain_header_def


subsection \<open>Status policy\<close>

lemma getNextStatusForType_table: "getNextStatusForType ty = table_terminal ty"
  by (simp add: getNextStatusForType_def table_terminal_def validity_table_def)

text \<open>
  C1. For every pair of a transaction type and a status, \<open>isStatusValidForType\<close> answers
  what the validity table says: Inbound accepts exactly Pending and Received, Outbound
  exactly Pending and Shipped, Adjustment exactly Pending and Completed, and a type
  that the table does not list accepts every status.
\<close>

theorem isStatusValidForType_table:
  "isStatusValidForType status ty = table_allows ty status"
  by (simp add: isStatusValidForType_def table_allows_def validity_table_def)

subsection \<open>Advancing a transaction\<close>

lemma advance_accepted:
  assumes "getNextStatusForType (h_transaction_type t) = Some nxt" and "outcome 0 w = None"
  shows "fst (advanceTransactionToNextStep t w) = True"
    and "transaction_header (snd (advanceTransactionToNextStep t w)) = transaction_header w"
    and "transaction_detail (snd (advanceTransactionToNextStep t w)) =
           map (\<lambda>d. if d_transaction_id d = h_transaction_id t \<and> d_status d = ''Pending''
                     then d\<lparr>d_status := nxt\<rparr> else d) (transaction_detail w)"
  using assms by (simp_all add: advanceTransactionToNextStep_def store_defs)

lemma map_unchanged:
  assumes "list_all (\<lambda>x. \<not> P x) xs"
  shows "map (\<lambda>x. if P x then f x else x) xs = xs"
  using assms by (induction xs) simp_all

text \<open>
  C5. \<open>advanceTransactionToNextStep\<close>, when the store accepts the update, reports
  success and sets exactly the lines of the transaction that are Pending to the terminal
  status of its type (Received for Inbound, Shipped for Outbound, Completed for
  Adjustment); every other line and every header stays as it is, so a transaction with
  no Pending line is left unchanged. For a type without a terminal status it reports
  failure and the world is unchanged.
\<close>

theorem advance_flips_pending_lines_only:
  "((h_transaction_type t, nxt) \<in> set [(''Inbound'', ''Received''), (''Outbound'', ''Shipped''),
                                        (''Adjustment'', ''Completed'')]
      \<and> outcome 0 w = None \<longrightarrow>
        fst (advanceTransactionToNextStep t w) = True
      \<and> transaction_header (snd (advanceTransactionToNextStep t w)) = transaction_header w
      \<and> transaction_detail (snd (advanceTransactionToNextStep t w)) =
          map (\<lambda>d. if d_transaction_id d = h_transaction_id t \<and> d_status d = ''Pending''
                    then d\<lparr>d_status := nxt\<rparr> else d) (transaction_detail w)
      \<and> (list_all (\<lambda>d. \<not> (d_transaction_id d = h_transaction_id t \<and> d_status d = ''Pending''))
            (transaction_detail w) \<longrightarrow>
          transaction_detail (snd (advanceTransactionToNextStep t w)) = transaction_detail w))
   \<and> (h_transaction_type t \<notin> set [''Inbound'', ''Outbound'', ''Adjustment''] \<longrightarrow>
        advanceTransactionToNextStep t w = (False, w))"
proof (intro conjI impI)
  assume a: "(h_transaction_type t, nxt) \<in> set [(''Inbound'', ''Received''),
               (''Outbound'', ''Shipped''), (''Adjustment'', ''Completed'')] \<and> outcome 0 w = None"
  then have nx: "getNextStatusForType (h_transaction_type t) = Some nxt"
    by (auto simp: getNextStatusForType_def)
  from a have ok: "outcome 0 w = None" by simp
  show "fst (advanceTransactionToNextStep t w) = True"
    by (rule advance_accepted(1) [OF nx ok])
  show "transaction_header (snd (advanceTransactionToNextStep t w)) = transaction_header w"
    by (rule advance_accepted(2) [OF nx ok])
  show lines: "transaction_detail (snd (advanceTransactionToNextStep t w)) =
          map (\<lambda>d. if d_transaction_id d = h_transaction_id t \<and> d_status d = ''Pending''
                    then d\<lparr>d_status := nxt\<rparr> else d) (transaction_detail w)"
    by (rule advance_accepted(3) [OF nx ok])
  assume "list_all (\<lambda>d. \<not> (d_transaction_id d = h_transaction_id t \<and> d_status d = ''Pending''))
            (transaction_detail w)"
  then show "transaction_detail (snd (advanceTransactionToNextStep t w)) = transaction_detail w"
    unfolding lines by (rule map_unchanged)
next
  assume "h_transaction_type t \<notin> set [''Inbound'', ''Outbound'', ''Adjustment'']"
  then have "getNextStatusForType (h_transaction_type t) = None"
    by (simp add: getNextStatusForType_def)
  then show "advanceTransactionToNextStep t w = (False, w)"
    by (simp add: advanceTransactionToNextStep_def)
qed

theorem advance_flips_pending_lines_only_witness:
  "(h_transaction_type (plain_header ''t1'' ''Outbound'' ''OB-00001''), ''Shipped'')
      \<in> set [(''Inbound'', ''Received''), (''Outbound'', ''Shipped''), (''Adjustment'', ''Completed'')]
   \<and> outcome 0 shipping_world = None
   \<and> fst (advanceTransactionToNextStep (plain_header ''t1'' ''Outbound'' ''OB-00001'') shipping_world) = True
   \<and> map d_status (transaction_detail
        (snd (advanceTransactionToNextStep (plain_header ''t1'' ''Outbound'' ''OB-00001'') shipping_world)))
      = [''Shipped'', ''Shipped'', ''Pending'']
   \<and> list_all (\<lambda>d. \<not> (d_transaction_id d = ''t3'' \<and> d_status d = ''Pending''))
        (transaction_detail shipping_world)
   \<and> transaction_detail
        (snd (advanceTransactionToNextStep (plain_header ''t3'' ''Inbound'' ''IB-00002'') shipping_world))
      = transaction_detail shipping_world
   \<and> h_transaction_type (plain_header ''t4'' ''Transfer'' ''TR-1'') \<notin> set [''Inbound'', ''Outbound'', ''Adjustment'']
   \<and> advanceTransactionToNextStep (plain_header ''t4'' ''Transfer'' ''TR-1'') shipping_world
      = (False, shipping_world)"
  using advance_flips_pending_lines_only
          [of "plain_header ''t1'' ''Outbound'' ''OB-00001''" "''Shipped''" shipping_world]
        advance_flips_pending_lines_only
          [of "plain_header ''t3'' ''Inbound'' ''IB-00002''" "''Received''" shipping_world]
        advance_flips_pending_lines_only
          [of "plain_header ''t4'' ''Transfer'' ''TR-1''" "''x''" shipping_world]
  by (simp add: example_defs outcome_def)

subsection \<open>Updating a detail line\<close>

lemma getTransactionType_found:
  assumes "filter (\<lambda>h. h_transaction_id h = tid) (transaction_header w) = [h]"
      and "outcome 0 w = None"
  shows "getTransactionType tid w =
           (h_transaction_type h, w\<lparr>requests := requests w @ [Select ''transaction_header'']\<rparr>)"
  using assms by (simp add: store_defs)

lemma getTransactionType_fallback:
  assumes "outcome 0 w \<noteq> None
           \<or> length (filter (\<lambda>h. h_transaction_id h = tid) (transaction_header w)) \<noteq> 1"
  shows "getTransactionType tid w =
           (''Adjustment'', w\<lparr>requests := requests w @ [Select ''transaction_header'']\<rparr>)"
  using assms by (auto simp: store_defs split: list.splits option.splits)

lemma updateTransactionDetail_rejected:
  assumes "getTransactionType tid w = (ty, w1)" and "\<not> isStatusValidForType (d_status new) ty"
  shows "updateTransactionDetail tid new w = (False, w1)"
  using assms by (simp add: updateTransactionDetail_def)

text \<open>
  C7. \<open>createTransaction\<close> with a status that is not valid for the type of the form
  returns \<open>null\<close> and leaves the world as it was: no request is sent (the last
  reference is not read), no identifier is drawn, no row is inserted. Likewise
  \<open>updateTransactionDetail\<close>, when the store accepts the read of the owning header
  and the read finds exactly that header, with a status that is not valid for the type
  of that header returns \<open>false\<close>; the only request it has sent is that read, and
  both tables are unchanged. When the read fails, the type falls back to Adjustment
  by design, and the status is validated against Adjustment instead of the type of the
  owning header.
\<close>

theorem invalid_status_rejected_before_any_write:
  "(\<not> isStatusValidForType (f_status data) (f_type data) \<longrightarrow>
        createTransaction defaultTransferDate data w = (None, w))
   \<and> (filter (\<lambda>h. h_transaction_id h = tid) (transaction_header w) = [h]
        \<and> outcome 0 w = None
        \<and> \<not> isStatusValidForType (d_status new) (h_transaction_type h) \<longrightarrow>
          fst (updateTransactionDetail tid new w) = False
        \<and> transaction_header (snd (updateTransactionDetail tid new w)) = transaction_header w
        \<and> transaction_detail (snd (updateTransactionDetail tid new w)) = transaction_detail w
        \<and> requests (snd (updateTransactionDetail tid new w))
            = requests w @ [Select ''transaction_header''])"
proof (intro conjI impI)
  assume "\<not> isStatusValidForType (f_status data) (f_type data)"
  then show "createTransaction defaultTransferDate data w = (None, w)"
    by (simp add: createTransaction_def)
next
  assume a: "filter (\<lambda>h. h_transaction_id h = tid) (transaction_header w) = [h]
        \<and> outcome 0 w = None
        \<and> \<not> isStatusValidForType (d_status new) (h_transaction_type h)"
  then have found: "filter (\<lambda>h. h_transaction_id h = tid) (transaction_header w) = [h]"
    and ok: "outcome 0 w = None"
    and bad: "\<not> isStatusValidForType (d_status new) (h_transaction_type h)"
    by simp_all
  have "updateTransactionDetail tid new w =
               (False, w\<lparr>requests := requests w @ [Select ''transaction_header'']\<rparr>)"
    by (rule updateTransactionDetail_rejected [OF getTransactionType_found [OF found ok] bad])
  then show "fst (updateTransactionDetail tid new w) = False"
    and "transaction_header (snd (updateTransactionDetail tid new w)) = transaction_header w"
    and "transaction_detail (snd (updateTransactionDetail tid new w)) = transaction_detail w"
    and "requests (snd (updateTransactionDetail tid new w))
            = requests w @ [Select ''transaction_header'']"
    by simp_all
qed

theorem invalid_status_rejected_before_any_write_witness:
  "\<not> isStatusValidForType (f_status (transfer_form\<lparr>f_status := ''Received''\<rparr>))
        (f_type (transfer_form\<lparr>f_status := ''Received''\<rparr>))
   \<and> createTransaction (\<lambda>d. None) (transfer_form\<lparr>f_status := ''Received''\<rparr>) shipping_world
       = (None, shipping_world)
   \<and> filter (\<lambda>h. h_transaction_id h = ''t1'') (transaction_header shipping_world)
       = [plain_header ''t1'' ''Outbound'' ''OB-00001'']
   \<and> outcome 0 shipping_world = None
   \<and> \<not> isStatusValidForType (d_status (line ''d1'' ''t1'' ''Widget'' ''Received''))
         (h_transaction_type (plain_header ''t1'' ''Outbound'' ''OB-00001''))
   \<and> fst (updateTransactionDetail ''t1'' (line ''d1'' ''t1'' ''Widget'' ''Received'') shipping_world)
       = False
   \<and> transaction_detail
        (snd (updateTransactionDetail ''t1'' (line ''d1'' ''t1'' ''Widget'' ''Received'') shipping_world))
       = transaction_detail shipping_world
   \<and> requests
        (snd (updateTransactionDetail ''t1'' (line ''d1'' ''t1'' ''Widget'' ''Received'') shipping_world))
       = [Select ''transaction_header'']"
  using invalid_status_rejected_before_any_write
          [of "transfer_form\<lparr>f_status := ''Received''\<rparr>" "\<lambda>d. None" shipping_world
              "''t1''" "plain_header ''t1'' ''Outbound'' ''OB-00001''"
              "line ''d1'' ''t1'' ''Widget'' ''Received''"]
  by (simp add: example_defs transfer_form_def outcome_def isStatusValidForType_def)

text \<open>
  Without a successful read the second half fails: the line \<open>d1\<close> belongs to the
  Outbound transaction \<open>t1\<close>, Completed is not valid for Outbound, the store refuses
  the read of the header, and the update to Completed is written.
\<close>

theorem refused_header_read_lets_invalid_status_through:
  "map h_transaction_id (transaction_header refusing_world) = [''t1'', ''t2'']
   \<and> map h_transaction_type (transaction_header refusing_world) = [''Outbound'', ''Inbound'']
   \<and> \<not> isStatusValidForType ''Completed'' ''Outbound''
   \<and> d_status (line ''d1'' ''t1'' ''Widget'' ''Completed'') = ''Completed''
   \<and> map d_transaction_id (transaction_detail refusing_world) = [''t1'', ''t1'', ''t2'']
   \<and> map d_status (transaction_detail refusing_world) = [''Pending'', ''Shipped'', ''Pending'']
   \<and> fst (updateTransactionDetail ''t1'' (line ''d1'' ''t1'' ''Widget'' ''Completed'') refusing_world)
       = True
   \<and> map d_status
        (transaction_detail
           (snd (updateTransactionDetail ''t1'' (line ''d1'' ''t1'' ''Widget'' ''Completed'')
                   refusing_world)))
       = [''Completed'', ''Shipped'', ''Pending'']
   \<and> requests
        (snd (updateTransactionDetail ''t1'' (line ''d1'' ''t1'' ''Widget'' ''Completed'')
                refusing_world))
       = [Select ''transaction_header'', Update ''transaction_detail'',
          Select ''transaction_header'']"
  by (simp add: updateTransactionDetail_def store_defs outcome_def refusing_world_def
        example_defs isStatusValidForType_def)

lemma updateTransactionDetail_validated:
  assumes "getTransactionType tid w = (ty, w1)" and "isStatusValidForType (d_status new) ty"
  shows "updateTransactionDetail tid new w =
           (case update_detail new w1 of
              (Some e, w2) \<Rightarrow> (False, w2)
            | (None, w2) \<Rightarrow> (True, fetchTransactions w2))"
  using assms by (simp add: updateTransactionDetail_def)

text \<open>
  C10. When the read of the owning header fails (the store refuses it, or the
  identifier does not match exactly one header), \<open>getTransactionType\<close> answers
  Adjustment, and \<open>updateTransactionDetail\<close> validates against the Adjustment rule:
  with Pending or Completed it goes on to send the update, and succeeds exactly when
  the store accepts it; with any other status it returns \<open>false\<close> after the read
  alone, with both tables unchanged.
\<close>

theorem failed_type_lookup_validates_as_adjustment:
  assumes "outcome 0 w \<noteq> None
           \<or> length (filter (\<lambda>h. h_transaction_id h = tid) (transaction_header w)) \<noteq> 1"
  shows "fst (getTransactionType tid w) = ''Adjustment''
   \<and> (d_status new \<in> set [''Pending'', ''Completed''] \<longrightarrow>
         fst (updateTransactionDetail tid new w) = (outcome 1 w = None)
       \<and> requests (snd (updateTransactionDetail tid new w))
           = requests w @ [Select ''transaction_header'', Update ''transaction_detail'']
               @ (if outcome 1 w = None then [Select ''transaction_header''] else []))
   \<and> (d_status new \<notin> set [''Pending'', ''Completed''] \<longrightarrow>
         fst (updateTransactionDetail tid new w) = False
       \<and> transaction_header (snd (updateTransactionDetail tid new w)) = transaction_header w
       \<and> transaction_detail (snd (updateTransactionDetail tid new w)) = transaction_detail w
       \<and> requests (snd (updateTransactionDetail tid new w))
           = requests w @ [Select ''transaction_header''])"
proof (intro conjI impI)
  note fb = getTransactionType_fallback [OF assms]
  show "fst (getTransactionType tid w) = ''Adjustment''"
    by (simp add: fb)
  {
    assume "d_status new \<in> set [''Pending'', ''Completed'']"
    then have ok: "isStatusValidForType (d_status new) ''Adjustment''"
      by (auto simp: isStatusValidForType_def)
    note run = updateTransactionDetail_validated [OF fb ok]
    show "fst (updateTransactionDetail tid new w) = (outcome 1 w = None)"
      by (simp add: run update_detail_def send_def fetchTransactions_def outcome_def
               split: option.splits)
    show "requests (snd (updateTransactionDetail tid new w))
           = requests w @ [Select ''transaction_header'', Update ''transaction_detail'']
               @ (if outcome 1 w = None then [Select ''transaction_header''] else [])"
      by (simp add: run update_detail_def send_def fetchTransactions_def outcome_def
               split: option.splits)
  }
  {
    assume "d_status new \<notin> set [''Pending'', ''Completed'']"
    then have bad: "\<not> isStatusValidForType (d_status new) ''Adjustment''"
      by (simp add: isStatusValidForType_def)
    note stop = updateTransactionDetail_rejected [OF fb bad]
    show "fst (updateTransactionDetail tid new w) = False"
      and "transaction_header (snd (updateTransactionDetail tid new w)) = transaction_header w"
      and "transaction_detail (snd (updateTransactionDetail tid new w)) = transaction_detail w"
      and "requests (snd (updateTransactionDetail tid new w))
             = requests w @ [Select ''transaction_header'']"
      by (simp_all add: stop)
  }
qed

theorem failed_type_lookup_validates_as_adjustment_witness:
  "length (filter (\<lambda>h. h_transaction_id h = ''gone'') (transaction_header shipping_world)) = 0
   \<and> fst (getTransactionType ''gone'' shipping_world) = ''Adjustment''
   \<and> fst (updateTransactionDetail ''gone'' (line ''d1'' ''gone'' ''Widget'' ''Completed'') shipping_world)
   \<and> fst (updateTransactionDetail ''gone'' (line ''d1'' ''gone'' ''Widget'' ''Pending'') shipping_world)
   \<and> fst (updateTransactionDetail ''gone'' (line ''d1'' ''gone'' ''Widget'' ''Shipped'') shipping_world)
       = False
   \<and> fst (updateTransactionDetail ''gone'' (line ''d1'' ''gone'' ''Widget'' ''Received'') shipping_world)
       = False
   \<and> transaction_detail
        (snd (updateTransactionDetail ''gone'' (line ''d1'' ''gone'' ''Widget'' ''Received'') shipping_world))
       = transaction_detail shipping_world"
  using failed_type_lookup_validates_as_adjustment
          [of shipping_world "''gone''" "line ''d1'' ''gone'' ''Widget'' ''Completed''"]
        failed_type_lookup_validates_as_adjustment
          [of shipping_world "''gone''" "line ''d1'' ''gone'' ''Widget'' ''Pending''"]
        failed_type_lookup_validates_as_adjustment
          [of shipping_world "''gone''" "line ''d1'' ''gone'' ''Widget'' ''Shipped''"]
        failed_type_lookup_validates_as_adjustment
          [of shipping_world "''gone''" "line ''d1'' ''gone'' ''Widget'' ''Received''"]
  by (simp add: example_defs outcome_def)

subsection \<open>Creating a transaction\<close>

lemma create_inbound_mirror_True:
  assumes "fst (create_inbound_mirror dtd data tid sequence w) = True"
  shows "transaction_header (snd (create_inbound_mirror dtd data tid sequence w))
           = transaction_header w
             @ [inbound_header data (entropy w (drawn w))
                  (the (if truthy (f_transferDate data) then f_transferDate data
                        else dtd (f_date data)))
                  (''IB-'' @ sequence) tid]"
    and "transaction_detail (snd (create_inbound_mirror dtd data tid sequence w))
           = transaction_detail w
             @ map2 (inbound_detail data (entropy w (drawn w))) (f_items data)
                 (uuids_from (entropy w) (Suc (drawn w)) (length (f_items data)))"
  using assms
  by (simp_all add: create_inbound_mirror_def store_defs map_with_uuid_eq Let_def
           split: if_splits option.splits)

lemma createTransaction_transfer_tables:
  assumes ok: "fst (createTransaction dtd data w) = Some h"
      and tr: "f_referenceType data = ''Transfer Order''"
      and wh: "truthy (f_transferToWarehouse data)"
  defines "tid \<equiv> entropy w (drawn w)"
      and "n \<equiv> length (f_items data)"
      and "sequence \<equiv> next_sequence (fst (select_lastRef (prefix_for (f_type data)) w))"
  shows "h = primary_header data tid (prefix_for (f_type data) @ sequence)"
    and "transaction_header (snd (createTransaction dtd data w))
           = transaction_header w
             @ [h, inbound_header data (entropy w (Suc (drawn w + n)))
                     (the (if truthy (f_transferDate data) then f_transferDate data
                           else dtd (f_date data)))
                     (''IB-'' @ sequence) tid]"
    and "transaction_detail (snd (createTransaction dtd data w))
           = transaction_detail w
             @ map2 (primary_detail data tid) (f_items data)
                 (uuids_from (entropy w) (Suc (drawn w)) n)
             @ map2 (inbound_detail data (entropy w (Suc (drawn w + n)))) (f_items data)
                 (uuids_from (entropy w) (Suc (Suc (drawn w + n))) n)"
proof -
  let ?p = "prefix_for (f_type data)"
  let ?h = "primary_header data tid (?p @ sequence)"
  let ?w2 = "snd (randomUUID (snd (select_lastRef ?p w)))"
  let ?w3 = "snd (insert_header ?h ?w2)"
  let ?ds = "fst (map_with_uuid (primary_detail data tid) (f_items data) ?w3)"
  let ?w4 = "snd (map_with_uuid (primary_detail data tid) (f_items data) ?w3)"
  let ?w5 = "snd (insert_details ?ds ?w4)"
  let ?m = "create_inbound_mirror dtd data tid sequence ?w5"
  have tid: "fst (randomUUID (snd (select_lastRef ?p w))) = tid"
    by (simp add: store_defs tid_def split: option.splits)
  have unfolded: "createTransaction dtd data w =
     (if \<not> isStatusValidForType (f_status data) (f_type data) then (None, w)
      else case fst (insert_header ?h ?w2) of
             Some e \<Rightarrow> (None, ?w3)
           | None \<Rightarrow>
              (case fst (insert_details ?ds ?w4) of
                 Some e \<Rightarrow> (None, ?w5)
               | None \<Rightarrow> if fst ?m then (Some ?h, fetchTransactions (snd ?m)) else (None, snd ?m)))"
    unfolding createTransaction_def Let_def case_prod_unfold tid sequence_def [symmetric]
    by (simp add: tr wh bool.case_eq_if split: option.splits)
  have a3: "fst (insert_header ?h ?w2) = None"
    and a5: "fst (insert_details ?ds ?w4) = None"
    and m: "fst ?m"
    using ok unfolding unfolded by (auto split: if_splits option.splits)
  show h: "h = ?h"
    using ok unfolding unfolded by (simp add: a3 a5 m split: if_splits)
  have after: "snd (createTransaction dtd data w) = fetchTransactions (snd ?m)"
    using ok unfolding unfolded by (simp add: a3 a5 m split: if_splits)
  have w5: "transaction_header ?w5 = transaction_header w @ [?h]"
    "transaction_detail ?w5
       = transaction_detail w
         @ map2 (primary_detail data tid) (f_items data) (uuids_from (entropy w) (Suc (drawn w)) n)"
    "entropy ?w5 = entropy w"
    "drawn ?w5 = Suc (drawn w + n)"
    using a3 a5 by (simp_all add: store_defs map_with_uuid_eq n_def split: option.splits)
  from m have m': "fst ?m = True" by simp
  show "transaction_header (snd (createTransaction dtd data w))
           = transaction_header w
             @ [h, inbound_header data (entropy w (Suc (drawn w + n)))
                     (the (if truthy (f_transferDate data) then f_transferDate data
                           else dtd (f_date data)))
                     (''IB-'' @ sequence) tid]"
    unfolding after
    by (simp add: fetchTransactions_def send_def create_inbound_mirror_True(1) [OF m'] w5 h)
  show "transaction_detail (snd (createTransaction dtd data w))
           = transaction_detail w
             @ map2 (primary_detail data tid) (f_items data)
                 (uuids_from (entropy w) (Suc (drawn w)) n)
             @ map2 (inbound_detail data (entropy w (Suc (drawn w + n)))) (f_items data)
                 (uuids_from (entropy w) (Suc (Suc (drawn w + n))) n)"
    unfolding after
    by (simp add: fetchTransactions_def send_def create_inbound_mirror_True(2) [OF m'] w5 n_def)
qed

text \<open>
  C3. When \<open>createTransaction\<close> succeeds for a form whose reference type is
  ``Transfer Order'' and which names a destination warehouse, the store has gained
  exactly two headers and their lines: the returned header, of the type of the form,
  with one line per item in the status of the form; and after it an Inbound header at
  the destination warehouse, whose reference number is \<open>IB-\<close> followed by the suffix
  of the returned header's reference number, whose \<open>related_transaction_id\<close> is the
  returned header's id, and whose lines repeat item, quantity, lot number and comments
  of the primary lines, all in status Pending.
\<close>

theorem transfer_creates_pending_inbound_mirror:
  assumes "fst (createTransaction dtd data w) = Some h"
      and "f_referenceType data = ''Transfer Order''"
      and "truthy (f_transferToWarehouse data)"
  shows "\<exists>m ds ms sequence.
           transaction_header (snd (createTransaction dtd data w)) = transaction_header w @ [h, m]
         \<and> transaction_detail (snd (createTransaction dtd data w)) = transaction_detail w @ ds @ ms
         \<and> h_transaction_type h = f_type data
         \<and> h_reference_number h = prefix_for (f_type data) @ sequence
         \<and> map d_transaction_id ds = replicate (length (f_items data)) (h_transaction_id h)
         \<and> map d_status ds = replicate (length (f_items data)) (f_status data)
         \<and> map d_item_name ds = map i_item_name (f_items data)
         \<and> h_transaction_type m = ''Inbound''
         \<and> h_warehouse m = f_transferToWarehouse data
         \<and> h_reference_number m = ''IB-'' @ sequence
         \<and> h_related_transaction_id m = Some (h_transaction_id h)
         \<and> map d_transaction_id ms = replicate (length (f_items data)) (h_transaction_id m)
         \<and> map d_status ms = replicate (length (f_items data)) ''Pending''
         \<and> map d_item_name ms = map d_item_name ds
         \<and> map d_quantity ms = map d_quantity ds
         \<and> map d_lot_number ms = map d_lot_number ds
         \<and> map d_comments ms = map d_comments ds"
proof -
  let ?n = "length (f_items data)"
  let ?tid = "entropy w (drawn w)"
  let ?seq = "next_sequence (fst (select_lastRef (prefix_for (f_type data)) w))"
  let ?mid = "entropy w (Suc (drawn w + ?n))"
  let ?m = "inbound_header data ?mid
              (the (if truthy (f_transferDate data) then f_transferDate data
                    else dtd (f_date data)))
              (''IB-'' @ ?seq) ?tid"
  let ?us = "uuids_from (entropy w) (Suc (drawn w)) ?n"
  let ?vs = "uuids_from (entropy w) (Suc (Suc (drawn w + ?n))) ?n"
  let ?ds = "map2 (primary_detail data ?tid) (f_items data) ?us"
  let ?ms = "map2 (inbound_detail data ?mid) (f_items data) ?vs"
  note t = createTransaction_transfer_tables [OF assms]
  have const: "\<And>c. map (\<lambda>x. c) (f_items data) = replicate ?n c"
    by (simp add: map_replicate_const)
  have ds: "map d_transaction_id ?ds = replicate ?n ?tid"
    "map d_status ?ds = replicate ?n (f_status data)"
    "map d_item_name ?ds = map i_item_name (f_items data)"
    "map d_quantity ?ds = map (\<lambda>it. case i_quantity it of Some q \<Rightarrow> q | None \<Rightarrow> 0) (f_items data)"
    "map d_lot_number ?ds = map (\<lambda>it. or_null (i_lot_number it)) (f_items data)"
    "map d_comments ?ds = map (\<lambda>it. or_null (i_comments it)) (f_items data)"
    unfolding const [symmetric]
    by (rule map2_first; simp add: primary_detail_def)+
  have ms: "map d_transaction_id ?ms = replicate ?n ?mid"
    "map d_status ?ms = replicate ?n ''Pending''"
    "map d_item_name ?ms = map i_item_name (f_items data)"
    "map d_quantity ?ms = map (\<lambda>it. case i_quantity it of Some q \<Rightarrow> q | None \<Rightarrow> 0) (f_items data)"
    "map d_lot_number ?ms = map (\<lambda>it. or_null (i_lot_number it)) (f_items data)"
    "map d_comments ?ms = map (\<lambda>it. or_null (i_comments it)) (f_items data)"
    unfolding const [symmetric]
    by (rule map2_first; simp add: inbound_detail_def)+
  have h: "h_transaction_type h = f_type data"
    "h_reference_number h = prefix_for (f_type data) @ ?seq"
    "h_transaction_id h = ?tid"
    by (simp_all add: t(1) primary_header_def)
  have m: "h_transaction_type ?m = ''Inbound''"
    "h_warehouse ?m = f_transferToWarehouse data"
    "h_reference_number ?m = ''IB-'' @ ?seq"
    "h_related_transaction_id ?m = Some ?tid"
    "h_transaction_id ?m = ?mid"
    by (simp_all add: inbound_header_def)
  show ?thesis
    apply (rule exI [of _ ?m])
    apply (rule exI [of _ ?ds])
    apply (rule exI [of _ ?ms])
    apply (rule exI [of _ ?seq])
    apply (intro conjI)
    by (simp_all only: t(2) t(3) ds ms h m)
qed

theorem transfer_creates_pending_inbound_mirror_witness:
  "fst (createTransaction (\<lambda>d. None) transfer_form shipping_world)
     = Some (primary_header transfer_form ''uuid-0'' ''OB-00002'')
   \<and> f_referenceType transfer_form = ''Transfer Order''
   \<and> truthy (f_transferToWarehouse transfer_form)
   \<and> map h_reference_number
        (transaction_header (snd (createTransaction (\<lambda>d. None) transfer_form shipping_world)))
      = [''OB-00001'', ''IB-00001'', ''OB-00002'', ''IB-00002'']
   \<and> map d_status
        (transaction_detail (snd (createTransaction (\<lambda>d. None) transfer_form shipping_world)))
      = [''Pending'', ''Shipped'', ''Pending'', ''Shipped'', ''Shipped'', ''Pending'', ''Pending'']
   \<and> (\<exists>m ds ms sequence.
           transaction_header (snd (createTransaction (\<lambda>d. None) transfer_form shipping_world))
             = transaction_header shipping_world
               @ [primary_header transfer_form ''uuid-0'' ''OB-00002'', m]
         \<and> transaction_detail (snd (createTransaction (\<lambda>d. None) transfer_form shipping_world))
             = transaction_detail shipping_world @ ds @ ms
         \<and> h_transaction_type (primary_header transfer_form ''uuid-0'' ''OB-00002'')
             = f_type transfer_form
         \<and> h_reference_number (primary_header transfer_form ''uuid-0'' ''OB-00002'')
             = prefix_for (f_type transfer_form) @ sequence
         \<and> map d_transaction_id ds
             = replicate (length (f_items transfer_form))
                 (h_transaction_id (primary_header transfer_form ''uuid-0'' ''OB-00002''))
         \<and> map d_status ds = replicate (length (f_items transfer_form)) (f_status transfer_form)
         \<and> map d_item_name ds = map i_item_name (f_items transfer_form)
         \<and> h_transaction_type m = ''Inbound''
         \<and> h_warehouse m = f_transferToWarehouse transfer_form
         \<and> h_reference_number m = ''IB-'' @ sequence
         \<and> h_related_transaction_id m
             = Some (h_transaction_id (primary_header transfer_form ''uuid-0'' ''OB-00002''))
         \<and> map d_transaction_id ms
             = replicate (length (f_items transfer_form)) (h_transaction_id m)
         \<and> map d_status ms = replicate (length (f_items transfer_form)) ''Pending''
         \<and> map d_item_name ms = map d_item_name ds
         \<and> map d_quantity ms = map d_quantity ds
         \<and> map d_lot_number ms = map d_lot_number ds
         \<and> map d_comments ms = map d_comments ds)"
proof -
  have ok: "fst (createTransaction (\<lambda>d. None) transfer_form shipping_world)
     = Some (primary_header transfer_form ''uuid-0'' ''OB-00002'')"
    by (simp add: create_defs example_defs transfer_form_def)
  have tr: "f_referenceType transfer_form = ''Transfer Order''"
    by (simp add: transfer_form_def)
  have wh: "truthy (f_transferToWarehouse transfer_form)"
    by (simp add: transfer_form_def truthy_def)
  have refs: "map h_reference_number
        (transaction_header (snd (createTransaction (\<lambda>d. None) transfer_form shipping_world)))
      = [''OB-00001'', ''IB-00001'', ''OB-00002'', ''IB-00002'']"
    by (simp add: create_defs example_defs transfer_form_def)
  have sts: "map d_status
        (transaction_detail (snd (createTransaction (\<lambda>d. None) transfer_form shipping_world)))
      = [''Pending'', ''Shipped'', ''Pending'', ''Shipped'', ''Shipped'', ''Pending'', ''Pending'']"
    by (simp add: create_defs example_defs transfer_form_def)
  note mirror = transfer_creates_pending_inbound_mirror [OF ok tr wh]
  show ?thesis
    by (rule conjI [OF ok conjI [OF tr conjI [OF wh conjI [OF refs conjI [OF sts mirror]]]]])
qed

subsection \<open>Reference numbers\<close>

lemma next_sequence_first: "next_sequence None = ''00001''" "next_sequence (Some []) = ''00001''"
  by (simp_all add: next_sequence_def)

lemma next_sequence_examples:
  "next_sequence (Some [''IB-00001'']) = ''00002''"
  "next_sequence (Some [''IB-99999'']) = ''100000''"
  "take 1 (rev (sort (filter (ilike_prefix ''IB-'') [''IB-99999'', ''IB-100000'']))) = [''IB-99999'']"
  by (simp_all add: create_defs)

text \<open>
  C2. The claim is that every reference number is the prefix of the type followed by a
  five-digit, zero-padded number, one above the suffix of the greatest existing
  reference with that prefix. The query for the last reference matches every reference
  that starts with the prefix, among them the \<open>ADJ-COUNT-\<close> references that
  \<open>generateAdjustment\<close> writes; such a reference sorts above every \<open>ADJ-0...\<close>, its
  second field is \<open>COUNT\<close>, and \<open>parseInt\<close> answers \<open>NaN\<close>. After one count adjustment a
  manual Adjustment is created as \<open>ADJ-00NaN\<close>, and so is the next one.
\<close>

theorem adjustment_reference_after_count_is_not_a_number:
  "map h_reference_number
     (transaction_header (snd (generateAdjustment counted_session empty_world)))
     = [''ADJ-COUNT-1700000000000'']
   \<and> map_option h_reference_number
       (fst (createTransaction (\<lambda>d. None) adjustment_form
               (snd (generateAdjustment counted_session empty_world))))
     = Some ''ADJ-00NaN''
   \<and> map_option h_reference_number
       (fst (createTransaction (\<lambda>d. None) adjustment_form
               (snd (createTransaction (\<lambda>d. None) adjustment_form
                       (snd (generateAdjustment counted_session empty_world))))))
     = Some ''ADJ-00NaN''"
  by (simp add: create_defs count_defs example_defs counted_session_def adjustment_form_def)

subsection \<open>Adjustment from a count\<close>

lemma generateAdjustment_header_accepted:
  assumes "selectedWarehouse st \<noteq> []" and "selectedDate st \<noteq> []" and "variances st \<noteq> []"
      and "outcome 0 w = None"
  shows "transaction_header (snd (generateAdjustment st w))
           = transaction_header w @ [adjustment_header st (entropy w (drawn w)) (clock w)]"
    and "transaction_detail (snd (generateAdjustment st w))
           = transaction_detail w
             @ (if outcome 1 w = None
                then map2 (adjustment_detail (entropy w (drawn w)))
                       (filter (\<lambda>v. v_variance v \<noteq> 0) (variances st))
                       (uuids_from (entropy w) (Suc (drawn w))
                          (length (filter (\<lambda>v. v_variance v \<noteq> 0) (variances st))))
                else [])"
    and "fst (generateAdjustment st w)
           = (if outcome 1 w = None then AdjustmentId (entropy w (drawn w)) else Null)"
    and "requests (snd (generateAdjustment st w))
           = requests w @ [Insert ''transaction_header'', Insert ''transaction_detail'']"
  using assms
  by (simp_all add: generateAdjustment_def store_defs map_with_uuid_eq outcome_simps
           split: option.splits)

text \<open>
  C4. For every list of variances that is not empty, when a warehouse and a date are
  selected and the store accepts both inserts, \<open>generateAdjustment\<close> adds one header
  of type Adjustment and one line for each variance that is not zero, in order, and
  nothing for a variance of zero; a line carries the item of its variance, the absolute
  value of the variance as quantity, status Completed, inventory status Stock, and the
  comment ``Count overage'' for a positive variance and ``Count shortage'' for a
  negative one. The variances that \<open>calculateVariances\<close> sets are the physical count
  minus the calculated on-hand quantity of the item (0 when the calculated inventory
  has no row for it). For the empty list the guard of \<open>generateAdjustment\<close> returns
  before any header is made.
\<close>

theorem adjustment_lines_are_the_nonzero_variances:
  "(selectedWarehouse st \<noteq> [] \<and> selectedDate st \<noteq> [] \<and> variances st \<noteq> []
      \<and> outcome 0 w = None \<and> outcome 1 w = None \<longrightarrow>
      (\<exists>hd lines.
          fst (generateAdjustment st w) = AdjustmentId (h_transaction_id hd)
        \<and> transaction_header (snd (generateAdjustment st w)) = transaction_header w @ [hd]
        \<and> h_transaction_type hd = ''Adjustment''
        \<and> transaction_detail (snd (generateAdjustment st w)) = transaction_detail w @ lines
        \<and> map d_transaction_id lines
            = replicate (length (filter (\<lambda>v. v_variance v \<noteq> 0) (variances st)))
                (h_transaction_id hd)
        \<and> map d_item_name lines
            = map v_itemName (filter (\<lambda>v. v_variance v \<noteq> 0) (variances st))
        \<and> map d_quantity lines
            = map (\<lambda>v. \<bar>v_variance v\<bar>) (filter (\<lambda>v. v_variance v \<noteq> 0) (variances st))
        \<and> map d_status lines
            = replicate (length (filter (\<lambda>v. v_variance v \<noteq> 0) (variances st))) ''Completed''
        \<and> map d_inventory_status lines
            = replicate (length (filter (\<lambda>v. v_variance v \<noteq> 0) (variances st))) ''Stock''
        \<and> map d_comments lines
            = map (\<lambda>v. Some (if 0 < v_variance v then ''Count overage'' else ''Count shortage''))
                (filter (\<lambda>v. v_variance v \<noteq> 0) (variances st))))
   \<and> (selectedWarehouse s \<noteq> [] \<and> selectedDate s \<noteq> [] \<and> countData s \<noteq> [] \<longrightarrow>
        map v_itemName (variances (fst (calculateVariances s u))) = map c_itemName (countData s)
      \<and> map v_physicalCount (variances (fst (calculateVariances s u)))
          = map c_quantity (countData s)
      \<and> map v_calculatedCount (variances (fst (calculateVariances s u)))
          = map (\<lambda>c. case find (\<lambda>r. s_item_name r = c_itemName c) (calculatedInventory s) of
                        None \<Rightarrow> 0 | Some r \<Rightarrow> s_on_hand_total r)
              (countData s)
      \<and> map v_variance (variances (fst (calculateVariances s u)))
          = map (\<lambda>c. c_quantity c
                        - (case find (\<lambda>r. s_item_name r = c_itemName c) (calculatedInventory s) of
                             None \<Rightarrow> 0 | Some r \<Rightarrow> s_on_hand_total r))
              (countData s)
      \<and> list_all (\<lambda>v. v_variance v = v_physicalCount v - v_calculatedCount v)
          (variances (fst (calculateVariances s u))))"
proof (intro conjI impI)
  let ?nz = "filter (\<lambda>v. v_variance v \<noteq> 0) (variances st)"
  let ?tid = "entropy w (drawn w)"
  let ?hd = "adjustment_header st ?tid (clock w)"
  let ?lines = "map2 (adjustment_detail ?tid) ?nz (uuids_from (entropy w) (Suc (drawn w)) (length ?nz))"
  assume a: "selectedWarehouse st \<noteq> [] \<and> selectedDate st \<noteq> [] \<and> variances st \<noteq> []
      \<and> outcome 0 w = None \<and> outcome 1 w = None"
  then have g: "selectedWarehouse st \<noteq> []" "selectedDate st \<noteq> []" "variances st \<noteq> []"
    and o0: "outcome 0 w = None" and o1: "outcome 1 w = None"
    by simp_all
  have r: "fst (generateAdjustment st w) = AdjustmentId ?tid"
    "transaction_header (snd (generateAdjustment st w)) = transaction_header w @ [?hd]"
    "transaction_detail (snd (generateAdjustment st w)) = transaction_detail w @ ?lines"
    using generateAdjustment_header_accepted [OF g o0] o1 by simp_all
  have const: "\<And>c. map (\<lambda>x. c) ?nz = replicate (length ?nz) c"
    by (simp add: map_replicate_const)
  have lines: "map d_transaction_id ?lines = replicate (length ?nz) ?tid"
    "map d_item_name ?lines = map v_itemName ?nz"
    "map d_quantity ?lines = map (\<lambda>v. \<bar>v_variance v\<bar>) ?nz"
    "map d_status ?lines = replicate (length ?nz) ''Completed''"
    "map d_inventory_status ?lines = replicate (length ?nz) ''Stock''"
    "map d_comments ?lines
       = map (\<lambda>v. Some (if 0 < v_variance v then ''Count overage'' else ''Count shortage'')) ?nz"
    unfolding const [symmetric]
    by (rule map2_first; simp add: adjustment_detail_def)+
  have hd: "h_transaction_id ?hd = ?tid" "h_transaction_type ?hd = ''Adjustment''"
    by (simp_all add: adjustment_header_def)
  show "\<exists>hd lines.
          fst (generateAdjustment st w) = AdjustmentId (h_transaction_id hd)
        \<and> transaction_header (snd (generateAdjustment st w)) = transaction_header w @ [hd]
        \<and> h_transaction_type hd = ''Adjustment''
        \<and> transaction_detail (snd (generateAdjustment st w)) = transaction_detail w @ lines
        \<and> map d_transaction_id lines = replicate (length ?nz) (h_transaction_id hd)
        \<and> map d_item_name lines = map v_itemName ?nz
        \<and> map d_quantity lines = map (\<lambda>v. \<bar>v_variance v\<bar>) ?nz
        \<and> map d_status lines = replicate (length ?nz) ''Completed''
        \<and> map d_inventory_status lines = replicate (length ?nz) ''Stock''
        \<and> map d_comments lines
            = map (\<lambda>v. Some (if 0 < v_variance v then ''Count overage'' else ''Count shortage'')) ?nz"
    apply (rule exI [of _ ?hd])
    apply (rule exI [of _ ?lines])
    apply (intro conjI)
    by (simp_all only: r lines hd)
next
  assume b: "selectedWarehouse s \<noteq> [] \<and> selectedDate s \<noteq> [] \<and> countData s \<noteq> []"
  then have v: "variances (fst (calculateVariances s u))
                  = map (variance_of (calculatedInventory s)) (countData s)"
    by (simp add: calculateVariances_def)
  show "map v_itemName (variances (fst (calculateVariances s u))) = map c_itemName (countData s)"
    by (simp add: v variance_of_def Let_def)
  show "map v_physicalCount (variances (fst (calculateVariances s u)))
          = map c_quantity (countData s)"
    by (simp add: v variance_of_def Let_def)
  show "map v_calculatedCount (variances (fst (calculateVariances s u)))
          = map (\<lambda>c. case find (\<lambda>r. s_item_name r = c_itemName c) (calculatedInventory s) of
                        None \<Rightarrow> 0 | Some r \<Rightarrow> s_on_hand_total r)
              (countData s)"
    by (simp add: v variance_of_def Let_def)
  show "map v_variance (variances (fst (calculateVariances s u)))
          = map (\<lambda>c. c_quantity c
                        - (case find (\<lambda>r. s_item_name r = c_itemName c) (calculatedInventory s) of
                             None \<Rightarrow> 0 | Some r \<Rightarrow> s_on_hand_total r))
              (countData s)"
    by (simp add: v variance_of_def Let_def)
  show "list_all (\<lambda>v. v_variance v = v_physicalCount v - v_calculatedCount v)
          (variances (fst (calculateVariances s u)))"
    by (simp add: v variance_of_def Let_def list_all_iff)
qed

theorem adjustment_lines_are_the_nonzero_variances_witness:
  "selectedWarehouse counted_session = ''North''
   \<and> selectedDate counted_session = ''2024-03-31''
   \<and> length (variances counted_session) = 3
   \<and> length (countData counted_session) = 3
   \<and> outcome 0 empty_world = None \<and> outcome 1 empty_world = None
   \<and> map d_item_name (transaction_detail (snd (generateAdjustment counted_session empty_world)))
       = [''A'', ''C'']
   \<and> map d_quantity (transaction_detail (snd (generateAdjustment counted_session empty_world)))
       = [5, 3]
   \<and> map d_status (transaction_detail (snd (generateAdjustment counted_session empty_world)))
       = [''Completed'', ''Completed'']
   \<and> map d_inventory_status
        (transaction_detail (snd (generateAdjustment counted_session empty_world)))
       = [''Stock'', ''Stock'']
   \<and> map d_comments (transaction_detail (snd (generateAdjustment counted_session empty_world)))
       = [Some ''Count shortage'', Some ''Count overage'']
   \<and> map h_transaction_type
        (transaction_header (snd (generateAdjustment counted_session empty_world)))
       = [''Adjustment'']
   \<and> map v_variance (variances (fst (calculateVariances counted_session empty_world)))
       = [- 5, 0, 3]"
  using adjustment_lines_are_the_nonzero_variances
          [of counted_session empty_world counted_session empty_world]
  by (auto simp add: counted_session_def empty_world_def outcome_def)


text \<open>
  For the empty list of variances no header is produced: the guard returns
  \<open>undefined\<close> and no request is sent.
\<close>

theorem empty_variance_list_produces_no_header:
  "variances uncounted_session = []
   \<and> selectedWarehouse uncounted_session = ''North''
   \<and> selectedDate uncounted_session = ''2024-03-31''
   \<and> fst (generateAdjustment uncounted_session empty_world) = Undefined
   \<and> transaction_header (snd (generateAdjustment uncounted_session empty_world)) = []
   \<and> requests (snd (generateAdjustment uncounted_session empty_world)) = []"
  by (simp add: generateAdjustment_def uncounted_session_def counted_session_def empty_world_def)

lemma filter_all_zero:
  assumes "list_all (\<lambda>v. v_variance v = 0) vs"
  shows "filter (\<lambda>v. v_variance v \<noteq> 0) vs = []"
  using assms by (induction vs) simp_all

text \<open>
  C9. With a warehouse and a date selected and a list of variances that is not empty
  but holds only zeros, \<open>generateAdjustment\<close> inserts the Adjustment header, with its
  reference number \<open>ADJ-COUNT-\<close> followed by the clock value, and then sends an insert
  of no detail line, so the detail table is unchanged: the header is inserted before
  the zero variances are filtered out. With an empty list it returns with the world
  unchanged; with a list that is not empty the insert of the header is always sent.
\<close>

theorem all_zero_variances_still_insert_the_header:
  "(selectedWarehouse st \<noteq> [] \<and> selectedDate st \<noteq> [] \<and> variances st \<noteq> []
      \<and> list_all (\<lambda>v. v_variance v = 0) (variances st) \<and> outcome 0 w = None \<longrightarrow>
        transaction_header (snd (generateAdjustment st w))
          = transaction_header w @ [adjustment_header st (entropy w (drawn w)) (clock w)]
      \<and> h_transaction_type (adjustment_header st (entropy w (drawn w)) (clock w)) = ''Adjustment''
      \<and> h_reference_number (adjustment_header st (entropy w (drawn w)) (clock w))
          = ''ADJ-COUNT-'' @ digits (clock w)
      \<and> transaction_detail (snd (generateAdjustment st w)) = transaction_detail w
      \<and> requests (snd (generateAdjustment st w))
          = requests w @ [Insert ''transaction_header'', Insert ''transaction_detail''])
   \<and> (variances st = [] \<longrightarrow> generateAdjustment st w = (Undefined, w))
   \<and> (selectedWarehouse st \<noteq> [] \<and> selectedDate st \<noteq> [] \<and> variances st \<noteq> [] \<longrightarrow>
        requests (snd (generateAdjustment st w))
          = requests w @ [Insert ''transaction_header'']
              @ (if outcome 0 w = None then [Insert ''transaction_detail''] else []))"
proof (intro conjI impI)
  assume a: "selectedWarehouse st \<noteq> [] \<and> selectedDate st \<noteq> [] \<and> variances st \<noteq> []
      \<and> list_all (\<lambda>v. v_variance v = 0) (variances st) \<and> outcome 0 w = None"
  then have g: "selectedWarehouse st \<noteq> []" "selectedDate st \<noteq> []" "variances st \<noteq> []"
    and o0: "outcome 0 w = None"
    and z: "filter (\<lambda>v. v_variance v \<noteq> 0) (variances st) = []"
    by (simp_all add: filter_all_zero)
  note r = generateAdjustment_header_accepted [OF g o0]
  show "transaction_header (snd (generateAdjustment st w))
          = transaction_header w @ [adjustment_header st (entropy w (drawn w)) (clock w)]"
    by (rule r(1))
  show "transaction_detail (snd (generateAdjustment st w)) = transaction_detail w"
    by (simp add: r(2) z)
  show "requests (snd (generateAdjustment st w))
          = requests w @ [Insert ''transaction_header'', Insert ''transaction_detail'']"
    by (rule r(4))
  show "h_transaction_type (adjustment_header st (entropy w (drawn w)) (clock w)) = ''Adjustment''"
    and "h_reference_number (adjustment_header st (entropy w (drawn w)) (clock w))
          = ''ADJ-COUNT-'' @ digits (clock w)"
    by (simp_all add: adjustment_header_def)
next
  assume "variances st = []"
  then show "generateAdjustment st w = (Undefined, w)"
    by (simp add: generateAdjustment_def)
next
  assume "selectedWarehouse st \<noteq> [] \<and> selectedDate st \<noteq> [] \<and> variances st \<noteq> []"
  then show "requests (snd (generateAdjustment st w))
          = requests w @ [Insert ''transaction_header'']
              @ (if outcome 0 w = None then [Insert ''transaction_detail''] else [])"
    by (simp add: generateAdjustment_def store_defs map_with_uuid_eq outcome_simps
             split: option.splits)
qed

theorem all_zero_variances_still_insert_the_header_witness:
  "selectedWarehouse counted_session = ''North''
   \<and> selectedDate counted_session = ''2024-03-31''
   \<and> map v_variance (variances (counted_session\<lparr>variances := [variances counted_session ! 1]\<rparr>))
       = [0]
   \<and> outcome 0 empty_world = None
   \<and> map h_reference_number
        (transaction_header
           (snd (generateAdjustment
                   (counted_session\<lparr>variances := [variances counted_session ! 1]\<rparr>) empty_world)))
       = [''ADJ-COUNT-1700000000000'']
   \<and> transaction_detail
        (snd (generateAdjustment
                (counted_session\<lparr>variances := [variances counted_session ! 1]\<rparr>) empty_world))
       = []
   \<and> requests
        (snd (generateAdjustment
                (counted_session\<lparr>variances := [variances counted_session ! 1]\<rparr>) empty_world))
       = [Insert ''transaction_header'', Insert ''transaction_detail'']
   \<and> generateAdjustment (counted_session\<lparr>variances := []\<rparr>) empty_world
       = (Undefined, empty_world)"
  using all_zero_variances_still_insert_the_header
          [of "counted_session\<lparr>variances := [variances counted_session ! 1]\<rparr>" empty_world]
        all_zero_variances_still_insert_the_header
          [of "counted_session\<lparr>variances := []\<rparr>" empty_world]
  by (simp add: counted_session_def empty_world_def outcome_def adjustment_header_def)

subsection \<open>The latest snapshot of an item\<close>

lemma find_append_cases:
  "find P (xs @ ys) = (case find P xs of None \<Rightarrow> find P ys | Some x \<Rightarrow> Some x)"
  by (induction xs) simp_all

lemma find_fold_push_if_new:
  "find (\<lambda>r. s_item_name r = i) (fold push_if_new xs acc)
     = find (\<lambda>r. s_item_name r = i) (acc @ xs)"
proof (induction xs arbitrary: acc)
  case Nil
  show ?case by simp
next
  case (Cons x xs)
  have "find (\<lambda>r. s_item_name r = i) (fold push_if_new (x # xs) acc)
          = find (\<lambda>r. s_item_name r = i) (push_if_new x acc @ xs)"
    by (simp add: Cons.IH)
  also have "\<dots> = find (\<lambda>r. s_item_name r = i) (acc @ x # xs)"
    by (cases "find (\<lambda>r. s_item_name r = s_item_name x) acc"; cases "i = s_item_name x")
       (simp_all add: push_if_new_def find_append_cases split: option.splits)
  finally show ?case .
qed

lemma find_None_no_item:
  "find (\<lambda>r. s_item_name r = i) xs = None \<longleftrightarrow> i \<notin> s_item_name ` set xs"
  by (induction xs) auto

lemma distinct_fold_push_if_new:
  assumes "distinct (map s_item_name acc)"
  shows "distinct (map s_item_name (fold push_if_new xs acc))"
  using assms
proof (induction xs arbitrary: acc)
  case Nil
  then show ?case by simp
next
  case (Cons x xs)
  have "distinct (map s_item_name (push_if_new x acc))"
    using Cons.prems by (auto simp: push_if_new_def find_None_no_item)
  then show ?case
    by (simp add: Cons.IH)
qed

lemma set_fold_push_if_new: "set (fold push_if_new xs acc) \<subseteq> set acc \<union> set xs"
proof (induction xs arbitrary: acc)
  case Nil
  show ?case by simp
next
  case (Cons x xs)
  have "set (push_if_new x acc) \<subseteq> set acc \<union> {x}"
    by (auto simp: push_if_new_def)
  with Cons.IH [of "push_if_new x acc"] show ?case
    by auto
qed

lemma find_first_is_latest:
  assumes "sorted_wrt (\<lambda>a b. s_transaction_date b \<le> s_transaction_date a) q"
      and "find P q = Some k" and "r \<in> set q" and "P r"
  shows "s_transaction_date r \<le> s_transaction_date k"
  using assms by (induction q) (auto split: if_splits)

lemma find_distinct_filter:
  assumes "distinct (map f xs)" and "find (\<lambda>x. f x = a) xs = Some k"
  shows "filter (\<lambda>x. f x = a) xs = [k]"
  using assms
proof (induction xs)
  case Nil
  then show ?case by simp
next
  case (Cons x xs)
  show ?case
  proof (cases "f x = a")
    case True
    with Cons.prems have "k = x" and "\<forall>y \<in> set xs. f y \<noteq> a"
      by (auto simp: image_iff)
    then show ?thesis
      using True by (simp add: filter_False)
  next
    case False
    with Cons show ?thesis by simp
  qed
qed

lemma select_snapshot_sorted:
  "sorted_wrt (\<lambda>a b. s_transaction_date b \<le> s_transaction_date a) (select_snapshot view wh cutoff)"
proof -
  have "sorted (map s_transaction_date
          (sort_key s_transaction_date
             (filter (\<lambda>r. s_warehouse r = wh \<and> s_transaction_date r \<le> cutoff) view)))"
    by (rule sorted_sort_key)
  then show ?thesis
    by (simp add: select_snapshot_def sorted_wrt_rev sorted_wrt_map)
qed

lemma set_select_snapshot:
  "set (select_snapshot view wh cutoff)
     = {r \<in> set view. s_warehouse r = wh \<and> s_transaction_date r \<le> cutoff}"
  by (auto simp: select_snapshot_def)

text \<open>
  C6. For a selected warehouse and date, and every row of the snapshot view of that
  warehouse dated at or before that date, the calculated inventory that
  \<open>fetchInitialInventory\<close> stores holds exactly one row for the item of that row; the
  row it holds is a row of the view itself, of that warehouse and dated at or before
  the cutoff, and no qualifying row of the item is more recent. The other rows of the
  item are not in the result, and nothing is added up.
\<close>

theorem latest_snapshot_row_wins:
  assumes "selectedWarehouse st \<noteq> []" and "selectedDate st \<noteq> []" and "outcome 0 w = None"
      and "r \<in> set view"
      and "s_warehouse r = selectedWarehouse st"
      and "s_transaction_date r \<le> selectedDate st"
  shows "\<exists>k. find (\<lambda>x. s_item_name x = s_item_name r)
                (calculatedInventory (fst (fetchInitialInventory view st w))) = Some k
           \<and> filter (\<lambda>x. s_item_name x = s_item_name r)
                (calculatedInventory (fst (fetchInitialInventory view st w))) = [k]
           \<and> k \<in> set view
           \<and> s_warehouse k = selectedWarehouse st
           \<and> s_transaction_date k \<le> selectedDate st
           \<and> s_transaction_date r \<le> s_transaction_date k"
proof -
  let ?q = "select_snapshot view (selectedWarehouse st) (selectedDate st)"
  let ?P = "\<lambda>x. s_item_name x = s_item_name r"
  have inv: "calculatedInventory (fst (fetchInitialInventory view st w)) = latestSnapshots ?q"
    using assms(1-3) by (simp add: fetchInitialInventory_def send_def Let_def)
  have rq: "r \<in> set ?q"
    using assms(4-6) by (simp add: set_select_snapshot)
  have same: "find ?P (latestSnapshots ?q) = find ?P ?q"
    by (simp add: latestSnapshots_def find_fold_push_if_new)
  from rq have "find ?P ?q \<noteq> None"
    by (auto simp: find_None_iff)
  then obtain k where k: "find ?P ?q = Some k"
    by auto
  then have kq: "k \<in> set ?q"
    by (auto simp: find_Some_iff)
  have one: "filter ?P (latestSnapshots ?q) = [k]"
    by (rule find_distinct_filter [where f = s_item_name])
       (simp_all add: latestSnapshots_def distinct_fold_push_if_new same [unfolded latestSnapshots_def] k)
  have latest: "s_transaction_date r \<le> s_transaction_date k"
    by (rule find_first_is_latest [OF select_snapshot_sorted k rq]) simp
  from kq have "k \<in> set view" "s_warehouse k = selectedWarehouse st"
    "s_transaction_date k \<le> selectedDate st"
    by (simp_all add: set_select_snapshot)
  with one latest show ?thesis
    by (simp add: inv same k)
qed

theorem latest_snapshot_row_wins_witness:
  "selectedWarehouse north_session = ''North''
   \<and> selectedDate north_session = ''2024-03-31''
   \<and> outcome 0 empty_world = None
   \<and> march_view ! 0 \<in> set march_view
   \<and> s_warehouse (march_view ! 0) = selectedWarehouse north_session
   \<and> s_transaction_date (march_view ! 0) \<le> selectedDate north_session
   \<and> calculatedInventory (fst (fetchInitialInventory march_view north_session empty_world))
       = [snapshot ''North'' ''A'' ''2024-03-20'' 30 30, snapshot ''North'' ''B'' ''2024-03-12'' 0 6]
   \<and> (\<exists>k. find (\<lambda>x. s_item_name x = s_item_name (march_view ! 0))
                (calculatedInventory (fst (fetchInitialInventory march_view north_session empty_world)))
             = Some k
           \<and> filter (\<lambda>x. s_item_name x = s_item_name (march_view ! 0))
                (calculatedInventory (fst (fetchInitialInventory march_view north_session empty_world)))
             = [k]
           \<and> k \<in> set march_view
           \<and> s_warehouse k = selectedWarehouse north_session
           \<and> s_transaction_date k \<le> selectedDate north_session
           \<and> s_transaction_date (march_view ! 0) \<le> s_transaction_date k)"
proof -
  have h: "selectedWarehouse north_session \<noteq> []" "selectedDate north_session \<noteq> []"
    "outcome 0 empty_world = None" "march_view ! 0 \<in> set march_view"
    "s_warehouse (march_view ! 0) = selectedWarehouse north_session"
    "s_transaction_date (march_view ! 0) \<le> selectedDate north_session"
    by (simp_all add: north_session_def empty_world_def outcome_def march_view_def snapshot_def)
  have e: "selectedWarehouse north_session = ''North''"
    "selectedDate north_session = ''2024-03-31''"
    by (simp_all add: north_session_def)
  have v: "calculatedInventory (fst (fetchInitialInventory march_view north_session empty_world))
       = [snapshot ''North'' ''A'' ''2024-03-20'' 30 30, snapshot ''North'' ''B'' ''2024-03-12'' 0 6]"
    by (simp add: count_defs send_def outcome_def north_session_def empty_world_def
          march_view_def snapshot_def)
  note w = latest_snapshot_row_wins [OF h]
  show ?thesis
    by (rule conjI [OF e(1) conjI [OF e(2) conjI [OF h(3) conjI [OF h(4) conjI [OF h(5)
          conjI [OF h(6) conjI [OF v w]]]]]]])
qed

subsection \<open>Active rows\<close>

lemma warehouse_report_rows:
  assumes "outcome 0 w = None"
  shows "set (fst (handleSelectWarehouse view name inventory w))
           = {row \<in> set view. r_Warehouse row = name
                \<and> (0 < r_on_hand_total row \<or> 0 < r_inbound_total row
                     \<or> 0 < r_scheduled_outbound_total row \<or> 0 < r_future_inventory_total row)}"
  using assms by (auto simp: handleSelectWarehouse_def select_summary_def send_def)

lemma count_list_items:
  "set (map c_itemName (initialCountData latest))
     = s_item_name ` {r \<in> set latest. s_on_hand_total r \<noteq> 0 \<or> s_inbound_total r \<noteq> 0
                          \<or> s_scheduled_outbound_total r \<noteq> 0}"
  by (auto simp: initialCountData_def)

text \<open>
  C8. The claim is that a row leaves the active views exactly when its four buckets are
  all zero, and that a row with a negative bucket stays. The query of the warehouse
  report asks the store for the rows with a bucket greater than zero, so the row of
  item A, whose on-hand quantity is \<open>-5\<close>, never reaches the filter that the handler
  documents as ``Filter out rows where all values are 0''. The count list tests three
  buckets, so the row of item B, whose only bucket that is not zero is the future
  inventory, is left out of it.
\<close>

theorem negative_on_hand_row_missing_from_report:
  "r_on_hand_total (summary_view ! 0) = - 5
   \<and> r_Warehouse (summary_view ! 0) = ''North''
   \<and> r_Item (summary_view ! 0) = ''A''
   \<and> map r_Item (fst (handleSelectWarehouse summary_view ''North'' [] empty_world)) = [''B'']
   \<and> map s_item_name
        (calculatedInventory (fst (fetchInitialInventory march_view north_session empty_world)))
       = [''A'', ''B'']
   \<and> map s_future_inventory_total
        (calculatedInventory (fst (fetchInitialInventory march_view north_session empty_world)))
       = [30, 6]
   \<and> map c_itemName
        (countData (fst (fetchInitialInventory march_view north_session empty_world)))
       = [''A'']"
  by (simp add: handleSelectWarehouse_def select_summary_def summary_view_def count_defs
        send_def outcome_def north_session_def empty_world_def march_view_def snapshot_def)

theorem negative_on_hand_row_missing_from_report_witness:
  "r_on_hand_total (summary_view ! 0) = - 5
   \<and> r_Warehouse (summary_view ! 0) = ''North''
   \<and> summary_view ! 0 \<notin> set (fst (handleSelectWarehouse summary_view ''North'' [] empty_world))"
proof -
  note t = negative_on_hand_row_missing_from_report
  have "r_Item (summary_view ! 0)
          \<notin> set (map r_Item (fst (handleSelectWarehouse summary_view ''North'' [] empty_world)))"
    using t by simp
  then have "summary_view ! 0 \<notin> set (fst (handleSelectWarehouse summary_view ''North'' [] empty_world))"
    by (metis image_eqI set_map)
  with t show ?thesis
    by simp
qed

end
